theory Spec2Isabelle
  imports Main
begin

section \<open>Data model of app.py\<close>

text \<open>
  The script app.py is re-executed from the top on every user interaction. What survives
  from one run to the next is the content of the three caches that the decorators
  \<^verbatim>\<open>st.cache_resource\<close> and \<^verbatim>\<open>st.cache_data\<close> keep for the process. Everything the
  script does beyond computing values (calls to the document store, to the generation
  model, to the accelerator, to the performance monitor, to the log and to the page) is
  recorded as an event of a trace, in the order of execution.

  Handles of the store and of the generator are opaque identities. A Python exception is
  the value \<open>Inl msg\<close>, where \<open>msg\<close> is \<^verbatim>\<open>str(e)\<close>. Time is the wall clock in whole
  seconds, the field \<open>clock\<close> of the state: a call reads it, and it moves only between
  calls. A string is a list of code points below 256.
\<close>

type_synonym db_handle = nat
type_synonym gen_handle = nat
type_synonym doc = string

datatype event =
    MonStart string
  | MonEnd string
  | ClearMemory
  | LogError string
  | StError string
  | StSuccess string
  | StStop
  | StText string
  | StCode string
  | StWrite string
  | StReference nat string
  | CreateOrLoadDb
  | NewGenerator
  | RefreshDatabase
  | GpuQuery
  | SimilaritySearch db_handle string nat
  | GenerateCode gen_handle string int

text \<open>
  The collaborators whose code is outside app.py are parameters of a run: what each of
  their calls answers, a value or an exception. The fields of \<open>gpu_stats\<close> are the
  numbers of \<^verbatim>\<open>GPUtil.getGPUs()[0]\<close> and of torch, already printed.
\<close>

record gpu_stats =
  device_name :: string
  memory_used :: string
  memory_total :: string
  load_percent :: string
  cuda_version :: string

record env =
  cuda_available :: bool
  create_or_load_db :: "string + db_handle"
  new_generator :: "string + gen_handle"
  refresh_database :: "string + db_handle"
  similarity_search :: "db_handle \<Rightarrow> string \<Rightarrow> nat \<Rightarrow> string + doc list"
  generate_code :: "gen_handle \<Rightarrow> string \<Rightarrow> int \<Rightarrow> string + string"
  gpu_query :: "string + gpu_stats"
  cpu_percent :: string
  ram_percent :: string

text \<open>The widgets' values in one run of the script.\<close>

record inputs =
  show_stats :: bool
  language :: string
  max_length :: int
  refresh_clicked :: bool
  user_query :: string
  generate_button :: bool
  include_explanation :: bool
  show_context :: bool

text \<open>
  A cache entry is the stored value with its creation time. \<open>init_components\<close> has no
  argument, so its cache has one slot; the two data caches are keyed by the arguments of
  the call.
\<close>

type_synonym 'v entry = "nat \<times> 'v"

record state =
  clock :: nat
  trace :: "event list"
  resource_cache :: "(db_handle option \<times> gen_handle option) entry option"
  docs_cache :: "(db_handle \<times> string \<times> nat) \<rightharpoonup> doc list entry"
  code_cache :: "(gen_handle \<times> string \<times> int) \<rightharpoonup> string entry"

definition emit :: "event \<Rightarrow> state \<Rightarrow> state" where
  "emit e s = s\<lparr>trace := trace s @ [e]\<rparr>"

text \<open>
  Modelled from the spec: \<^verbatim>\<open>PerformanceMonitor\<close> and \<^verbatim>\<open>GPUManager.clear_memory\<close>
  live in utils.py, which is not part of the sources. The spec gives them no return value
  and no failure (\<open>start\<close> opens a record, \<open>end\<close> closes it and writes a log line,
  \<open>releaseUnused\<close> is advisory and idempotent), so each call is one event of the trace.
\<close>

definition monitor_start :: "string \<Rightarrow> state \<Rightarrow> state" where
  "monitor_start name s = emit (MonStart name) s"

definition monitor_end :: "string \<Rightarrow> state \<Rightarrow> state" where
  "monitor_end name s = emit (MonEnd name) s"

definition clear_memory :: "state \<Rightarrow> state" where
  "clear_memory s = emit ClearMemory s"

text \<open>The guard \<^verbatim>\<open>if torch.cuda.is_available(): GPUManager.clear_memory()\<close>.\<close>

definition clear_if_cuda :: "env \<Rightarrow> state \<Rightarrow> state" where
  "clear_if_cuda e s = (if cuda_available e then clear_memory s else s)"

section \<open>The caching decorators\<close>

text \<open>
  \<^verbatim>\<open>@st.cache_resource(ttl=3600)\<close> and \<^verbatim>\<open>@st.cache_data(ttl=300)\<close> memoise the value a
  function returns: a call whose key has an entry younger than the time to live gets the
  stored value and the function body is not run; any other call runs the body and, when
  the body returns, stores what it returned with the current time. An exception of the
  body passes through to the caller and nothing is stored.
\<close>

definition init_components_ttl :: nat where
  "init_components_ttl = 3600"

definition get_similar_docs_ttl :: nat where
  "get_similar_docs_ttl = 300"

definition generate_code_cached_ttl :: nat where
  "generate_code_cached_ttl = 300"

definition fresh :: "nat \<Rightarrow> nat \<Rightarrow> 'v entry option \<Rightarrow> 'v option" where
  "fresh ttl now slot =
     (case slot of
        None \<Rightarrow> None
      | Some (created, v) \<Rightarrow> if now < created + ttl then Some v else None)"

section \<open>Word count of the prompt\<close>

text \<open>
  \<^verbatim>\<open>prompt.split()\<close> cuts at runs of white space and drops empty pieces. The white
  space of Python's \<open>str\<close> below code point 256 is TAB, LF, VT, FF, CR, FS, GS, RS, US,
  space, NEL and the no-break space.
\<close>

definition py_isspace :: "char \<Rightarrow> bool" where
  "py_isspace c = ((of_char c :: nat) \<in> {9, 10, 11, 12, 13, 28, 29, 30, 31, 32, 133, 160})"

fun split_from :: "string \<Rightarrow> string \<Rightarrow> string list" where
  "split_from cur [] = (if cur = [] then [] else [cur])"
| "split_from cur (c # cs) =
     (if py_isspace c
      then (if cur = [] then split_from [] cs else cur # split_from [] cs)
      else split_from (cur @ [c]) cs)"

definition py_split :: "string \<Rightarrow> string list" where
  "py_split s = split_from [] s"

section \<open>The functions of app.py\<close>

subsection \<open>get_system_stats\<close>

text \<open>
  The dictionary \<open>stats\<close> is the list of its items in insertion order (the keys are
  distinct). The accelerator is queried inside \<^verbatim>\<open>try\<close>: the dictionary of the four GPU
  items is built from the answers before \<^verbatim>\<open>stats.update\<close> runs, so a failing query adds
  none of them; the handler logs the exception and adds the item \<^verbatim>\<open>"GPU Error"\<close>.
\<close>

definition get_system_stats :: "env \<Rightarrow> state \<Rightarrow> (string \<times> string) list \<times> state" where
  "get_system_stats e s =
     (let (gpu_items, s1) =
        (if cuda_available e then
           (case gpu_query e of
              Inr g \<Rightarrow>
                ([(''GPU Device'', device_name g),
                  (''GPU Memory'', memory_used g @ ''MB / '' @ memory_total g @ ''MB''),
                  (''GPU Util'', load_percent g @ ''%''),
                  (''CUDA Ver'', cuda_version g)],
                 emit GpuQuery s)
            | Inl msg \<Rightarrow>
                ([(''GPU Error'', msg)],
                 emit (LogError (''Error getting GPU stats: '' @ msg)) (emit GpuQuery s)))
         else ([], s))
      in (gpu_items @
            [(''CPU Usage'', cpu_percent e @ ''%''),
             (''RAM Usage'', ram_percent e @ ''%'')],
          s1))"

subsection \<open>init_components\<close>

definition init_failed ::
  "string \<Rightarrow> state \<Rightarrow> (db_handle option \<times> gen_handle option) \<times> state" where
  "init_failed msg s =
     ((None, None),
      emit (StError (''Error initializing components: '' @ msg))
        (emit (LogError (''Error initializing components: '' @ msg)) s))"

definition init_components_body ::
  "env \<Rightarrow> state \<Rightarrow> (db_handle option \<times> gen_handle option) \<times> state" where
  "init_components_body e s =
     (let s1 = monitor_start ''init_components'' s;
          s2 = clear_if_cuda e s1;
          s3 = emit CreateOrLoadDb s2
      in case create_or_load_db e of
           Inl msg \<Rightarrow> init_failed msg s3
         | Inr db \<Rightarrow>
             (let s4 = emit NewGenerator s3
              in case new_generator e of
                   Inl msg \<Rightarrow> init_failed msg s4
                 | Inr generator \<Rightarrow>
                     ((Some db, Some generator), monitor_end ''init_components'' s4)))"

definition init_components ::
  "env \<Rightarrow> state \<Rightarrow> (db_handle option \<times> gen_handle option) \<times> state" where
  "init_components e s =
     (case fresh init_components_ttl (clock s) (resource_cache s) of
        Some v \<Rightarrow> (v, s)
      | None \<Rightarrow>
          (let (v, s1) = init_components_body e s
           in (v, s1\<lparr>resource_cache := Some (clock s1, v)\<rparr>)))"

subsection \<open>get_similar_docs\<close>

definition get_similar_docs_body ::
  "env \<Rightarrow> db_handle \<Rightarrow> string \<Rightarrow> nat \<Rightarrow> state \<Rightarrow> (string + doc list) \<times> state" where
  "get_similar_docs_body e db query k s =
     (let s1 = monitor_start ''similarity_search'' s;
          s2 = emit (SimilaritySearch db query k) s1
      in case similarity_search e db query k of
           Inl msg \<Rightarrow> (Inl msg, s2)
         | Inr docs \<Rightarrow> (Inr docs, monitor_end ''similarity_search'' s2))"

definition get_similar_docs ::
  "env \<Rightarrow> db_handle \<Rightarrow> string \<Rightarrow> nat \<Rightarrow> state \<Rightarrow> (string + doc list) \<times> state" where
  "get_similar_docs e db query k s =
     (case fresh get_similar_docs_ttl (clock s) (docs_cache s (db, query, k)) of
        Some docs \<Rightarrow> (Inr docs, s)
      | None \<Rightarrow>
          (case get_similar_docs_body e db query k s of
             (Inl msg, s1) \<Rightarrow> (Inl msg, s1)
           | (Inr docs, s1) \<Rightarrow>
               (Inr docs,
                s1\<lparr>docs_cache := (docs_cache s1)((db, query, k) \<mapsto> (clock s1, docs))\<rparr>)))"

subsection \<open>generate_code_cached\<close>

definition generate_code_cached_body ::
  "env \<Rightarrow> gen_handle \<Rightarrow> string \<Rightarrow> int \<Rightarrow> state \<Rightarrow> (string + string) \<times> state" where
  "generate_code_cached_body e generator prompt max_len s =
     (let s1 = monitor_start ''code_generation'' s;
          prompt_length = int (length (py_split prompt));
          adjusted = max 500 (prompt_length + 200);
          s2 = emit (GenerateCode generator prompt adjusted) s1
      in case generate_code e generator prompt adjusted of
           Inl msg \<Rightarrow> (Inl msg, s2)
         | Inr result \<Rightarrow> (Inr result, monitor_end ''code_generation'' s2))"

definition generate_code_cached ::
  "env \<Rightarrow> gen_handle \<Rightarrow> string \<Rightarrow> int \<Rightarrow> state \<Rightarrow> (string + string) \<times> state" where
  "generate_code_cached e generator prompt max_len s =
     (case fresh generate_code_cached_ttl (clock s)
             (code_cache s (generator, prompt, max_len)) of
        Some result \<Rightarrow> (Inr result, s)
      | None \<Rightarrow>
          (case generate_code_cached_body e generator prompt max_len s of
             (Inl msg, s1) \<Rightarrow> (Inl msg, s1)
           | (Inr result, s1) \<Rightarrow>
               (Inr result,
                s1\<lparr>code_cache :=
                     (code_cache s1)((generator, prompt, max_len) \<mapsto> (clock s1, result))\<rparr>)))"

subsection \<open>main\<close>

definition newline :: string where
  "newline = [CHR 0x0A]"

fun join :: "string \<Rightarrow> string list \<Rightarrow> string" where
  "join sep [] = []"
| "join sep [x] = x"
| "join sep (x # y # ys) = x @ sep @ join sep (y # ys)"

text \<open>The sidebar's block under \<^verbatim>\<open>st.checkbox("Show System Stats")\<close>.\<close>

definition stats_step :: "env \<Rightarrow> inputs \<Rightarrow> state \<Rightarrow> state" where
  "stats_step e inp s =
     (if show_stats inp then
        (let (stats, s1) = get_system_stats e s;
             stats_text = join newline (map (\<lambda>(k, v). k @ '': '' @ v) stats)
         in emit (StText stats_text) s1)
      else s)"

text \<open>
  The block under \<^verbatim>\<open>st.button("Refresh Documentation Database")\<close>. It rebinds the
  local variable \<open>db\<close> when \<open>refresh_database\<close> returns; the result is the value of
  \<open>db\<close> after the block.
\<close>

definition refresh_step ::
  "env \<Rightarrow> inputs \<Rightarrow> db_handle \<Rightarrow> state \<Rightarrow> db_handle \<times> state" where
  "refresh_step e inp db s =
     (if refresh_clicked inp then
        (let s1 = monitor_start ''refresh_database'' s;
             s2 = emit RefreshDatabase s1
         in case refresh_database e of
              Inr db' \<Rightarrow>
                (let s3 = monitor_end ''refresh_database'' s2;
                     s4 = emit (StSuccess ''Database refreshed successfully!'') s3
                 in (db', clear_if_cuda e s4))
            | Inl msg \<Rightarrow>
                (db,
                 emit (StError (''Error refreshing database: '' @ msg))
                   (emit (LogError (''Error refreshing database: '' @ msg)) s2)))
      else (db, s))"

definition make_prompt :: "string \<Rightarrow> string \<Rightarrow> string \<Rightarrow> string" where
  "make_prompt lang query context =
     newline @ ''Language: '' @ lang @ newline @
     ''Task: '' @ query @ newline @ newline @
     ''Reference Documentation:'' @ newline @
     context @ newline @ newline @
     ''Please generate code that follows best practices and includes comments.'' @ newline"

fun show_references :: "nat \<Rightarrow> doc list \<Rightarrow> state \<Rightarrow> state" where
  "show_references i [] s = s"
| "show_references i (d # ds) s = show_references (Suc i) ds (emit (StReference i d) s)"

text \<open>
  The body of the \<^verbatim>\<open>try\<close> under \<^verbatim>\<open>if generate_button and user_query\<close>; \<open>Inl msg\<close> is
  the exception that leaves it. The button \<^verbatim>\<open>"Copy Code"\<close> is created inside a block
  that runs only in the run where \<^verbatim>\<open>"Generate Code"\<close> was the widget clicked, so it
  reads False whenever it is reached.
\<close>

definition request_body ::
  "env \<Rightarrow> inputs \<Rightarrow> db_handle \<Rightarrow> gen_handle \<Rightarrow> state \<Rightarrow> (string + unit) \<times> state" where
  "request_body e inp db generator s =
     (let s1 = clear_if_cuda e s
      in case get_similar_docs e db (user_query inp) 3 s1 of
           (Inl msg, s2) \<Rightarrow> (Inl msg, s2)
         | (Inr docs, s2) \<Rightarrow>
             (let context = join newline docs;
                  prompt = make_prompt (language inp) (user_query inp) context
              in case generate_code_cached e generator prompt (max_length inp) s2 of
                   (Inl msg, s3) \<Rightarrow> (Inl msg, s3)
                 | (Inr generated_code, s3) \<Rightarrow>
                     (let s4 = emit (StCode generated_code) s3;
                          r5 =
                            (if include_explanation inp then
                               (case generate_code_cached e generator
                                       (''Explain this '' @ language inp @ '' code:'' @
                                          newline @ generated_code)
                                       300 s4 of
                                  (Inl msg, s5) \<Rightarrow> (Inl msg, s5)
                                | (Inr explanation, s5) \<Rightarrow>
                                    (Inr (), emit (StWrite explanation) s5))
                             else (Inr (), s4))
                      in case r5 of
                           (Inl msg, s5) \<Rightarrow> (Inl msg, s5)
                         | (Inr u, s5) \<Rightarrow>
                             (let s6 = (if show_context inp
                                        then show_references 1 docs s5 else s5)
                              in (Inr (), clear_if_cuda e s6)))))"

definition request_step ::
  "env \<Rightarrow> inputs \<Rightarrow> db_handle \<Rightarrow> gen_handle \<Rightarrow> state \<Rightarrow> state" where
  "request_step e inp db generator s =
     (if generate_button inp \<and> user_query inp \<noteq> [] then
        (case request_body e inp db generator s of
           (Inr u, s1) \<Rightarrow> s1
         | (Inl msg, s1) \<Rightarrow>
             emit (StError (''An error occurred: '' @ msg))
               (emit (LogError (''Error during code generation: '' @ msg)) s1))
      else s)"

text \<open>
  One run of the script. \<^verbatim>\<open>st.stop()\<close> ends the run at once: nothing after it is
  executed, also not \<^verbatim>\<open>monitor.end("app_startup")\<close>. Page configuration, titles,
  headers, columns and the footer draw the page and are left out.
\<close>

definition main :: "env \<Rightarrow> inputs \<Rightarrow> state \<Rightarrow> state" where
  "main e inp s =
     (let s0 = monitor_start ''app_startup'' s
      in case init_components e s0 of
           ((Some db, Some generator), s1) \<Rightarrow>
             (let s2 = stats_step e inp s1;
                  (db', s3) = refresh_step e inp db s2;
                  s4 = request_step e inp db' generator s3
              in monitor_end ''app_startup'' s4)
         | (_, s1) \<Rightarrow> emit StStop s1)"

section \<open>Observations on a trace\<close>

text \<open>The calls made to the generation model, with their arguments, in order.\<close>

fun model_calls :: "event list \<Rightarrow> (gen_handle \<times> string \<times> int) list" where
  "model_calls [] = []"
| "model_calls (GenerateCode g p n # es) = (g, p, n) # model_calls es"
| "model_calls (_ # es) = model_calls es"

text \<open>The calls made to the document store's similarity search.\<close>

fun store_calls :: "event list \<Rightarrow> (db_handle \<times> string \<times> nat) list" where
  "store_calls [] = []"
| "store_calls (SimilaritySearch d q k # es) = (d, q, k) # store_calls es"
| "store_calls (_ # es) = store_calls es"

text \<open>The number of calls of \<^verbatim>\<open>GPUManager.clear_memory\<close>.\<close>

definition count_clear :: "event list \<Rightarrow> nat" where
  "count_clear es = length (filter (\<lambda>ev. ev = ClearMemory) es)"

text \<open>
  The effective length in the words of the specification:
  \<open>effectiveLength(prompt, requestedMax) = max(500, wordCount(prompt) + 200)\<close>.
\<close>

definition effectiveLength_spec :: "string \<Rightarrow> int \<Rightarrow> int" where
  "effectiveLength_spec prompt requestedMax = max 500 (int (length (py_split prompt)) + 200)"

text \<open>
  \<open>quiet s s'\<close>: the trace of \<open>s'\<close> is the trace of \<open>s\<close> followed by events none
  of which is a call of \<^verbatim>\<open>clear_memory\<close>.
\<close>

definition quiet :: "state \<Rightarrow> state \<Rightarrow> bool" where
  "quiet s s' =
     (take (length (trace s)) (trace s') = trace s
      \<and> count_clear (drop (length (trace s)) (trace s')) = 0)"

text \<open>
  The events of the statistics block and of the log, and what is left of a state when
  they are put aside: the clock, the three caches and every other event in order.
\<close>

fun diagnostic :: "event \<Rightarrow> bool" where
  "diagnostic GpuQuery = True"
| "diagnostic (StText t) = True"
| "diagnostic (LogError m) = True"
| "diagnostic ev = False"

definition core :: "state \<Rightarrow> nat \<times> (db_handle option \<times> gen_handle option) entry option
    \<times> ((db_handle \<times> string \<times> nat) \<rightharpoonup> doc list entry)
    \<times> ((gen_handle \<times> string \<times> int) \<rightharpoonup> string entry) \<times> event list" where
  "core s = (clock s, resource_cache s, docs_cache s, code_cache s,
             filter (\<lambda>ev. \<not> diagnostic ev) (trace s))"

section \<open>Concrete runs\<close>

text \<open>
  A machine with an accelerator where every collaborator answers, and the state of a
  process that has just started: time 0, nothing cached, nothing done.
\<close>

definition demo_env :: env where
  "demo_env =
     \<lparr>cuda_available = True,
      create_or_load_db = Inr 1,
      new_generator = Inr 7,
      refresh_database = Inr 2,
      similarity_search = (\<lambda>d q k. Inr [''doc'']),
      generate_code = (\<lambda>g p n. Inr ''x = 1''),
      gpu_query = Inr \<lparr>device_name = ''T4'', memory_used = ''10'', memory_total = ''100'',
                      load_percent = ''5.0'', cuda_version = ''12.1''\<rparr>,
      cpu_percent = ''5.0'',
      ram_percent = ''6.0''\<rparr>"

definition start_state :: state where
  "start_state =
     \<lparr>clock = 0, trace = [], resource_cache = None,
      docs_cache = Map.empty, code_cache = Map.empty\<rparr>"

text \<open>A prompt of \<open>n\<close> words.\<close>

definition words_prompt :: "nat \<Rightarrow> string" where
  "words_prompt n = concat (replicate n ''w '')"

text \<open>A machine where every collaborator raises.\<close>

definition broken_env :: env where
  "broken_env =
     \<lparr>cuda_available = True,
      create_or_load_db = Inl ''no index'',
      new_generator = Inl ''no weights'',
      refresh_database = Inl ''no documents'',
      similarity_search = (\<lambda>d q k. Inl ''store down''),
      generate_code = (\<lambda>g p n. Inl ''out of memory''),
      gpu_query = Inl ''no driver'',
      cpu_percent = ''5.0'',
      ram_percent = ''6.0''\<rparr>"

text \<open>The state after one search for \<^verbatim>\<open>"sort a list"\<close> at time 0.\<close>

definition docs_state :: state where
  "docs_state =
     start_state
       \<lparr>trace := [MonStart ''similarity_search'', SimilaritySearch 1 ''sort a list'' 3,
                  MonEnd ''similarity_search''],
        docs_cache := [(1, ''sort a list'', 3) \<mapsto> (0, [''doc''])]\<rparr>"

text \<open>The state after one generation for the prompt \<^verbatim>\<open>"hi"\<close> at time 0.\<close>

definition code_state :: state where
  "code_state =
     start_state
       \<lparr>trace := [MonStart ''code_generation'', GenerateCode 7 ''hi'' 500,
                  MonEnd ''code_generation''],
        code_cache := [(7, ''hi'', 100) \<mapsto> (0, ''x = 1'')]\<rparr>"

text \<open>A run where every box is ticked and both buttons are clicked.\<close>

definition demo_inputs :: inputs where
  "demo_inputs =
     \<lparr>show_stats = True, language = ''Python'', max_length = 500, refresh_clicked = True,
      user_query = ''sort a list'', generate_button = True, include_explanation = True,
      show_context = True\<rparr>"

text \<open>The states after a first run, and a first call of \<open>init_components\<close>, on the broken machine.\<close>

definition failed_state :: state where
  "failed_state = start_state
     \<lparr>trace := [MonStart ''app_startup'', MonStart ''init_components'', ClearMemory, CreateOrLoadDb,
        LogError ''Error initializing components: no index'',
        StError ''Error initializing components: no index''],
      resource_cache := Some (0, (None, None))\<rparr>"

definition poisoned_state :: state where
  "poisoned_state = start_state
     \<lparr>trace := [MonStart ''init_components'', ClearMemory, CreateOrLoadDb,
        LogError ''Error initializing components: no index'',
        StError ''Error initializing components: no index''],
      resource_cache := Some (0, (None, None))\<rparr>"

text \<open>A process whose components were built at time 0, seen at time 100.\<close>

definition warm_state :: state where
  "warm_state = start_state\<lparr>clock := 100, resource_cache := Some (0, (Some 1, Some 7))\<rparr>"

text \<open>A run where only the refresh button is clicked.\<close>

definition refresh_inputs :: inputs where
  "refresh_inputs = demo_inputs\<lparr>show_stats := False, generate_button := False\<rparr>"

text \<open>A machine whose model raises on every call, and one whose model raises on the
  explanation prompt only.\<close>

definition no_model_env :: env where
  "no_model_env = demo_env\<lparr>generate_code := (\<lambda>g p n. Inl ''out of memory'')\<rparr>"

definition no_explain_env :: env where
  "no_explain_env =
     demo_env\<lparr>generate_code :=
       (\<lambda>g p n. if take 7 p = ''Explain'' then Inl ''out of memory'' else Inr ''x = 1'')\<rparr>"

text \<open>The two prompts of a request for \<^verbatim>\<open>"sort a list"\<close> in Python, and the states after its
  search and after its first generation.\<close>

definition demo_prompt :: string where
  "demo_prompt = make_prompt ''Python'' ''sort a list'' ''doc''"

definition demo_explain :: string where
  "demo_explain = ''Explain this Python code:'' @ newline @ ''x = 1''"

definition searched_state :: state where
  "searched_state =
     start_state
       \<lparr>trace := [ClearMemory, MonStart ''similarity_search'',
                  SimilaritySearch 1 ''sort a list'' 3, MonEnd ''similarity_search''],
        docs_cache := [(1, ''sort a list'', 3) \<mapsto> (0, [''doc''])]\<rparr>"

definition generated_state :: state where
  "generated_state =
     searched_state
       \<lparr>trace := trace searched_state @
          [MonStart ''code_generation'', GenerateCode 7 demo_prompt 500,
           MonEnd ''code_generation''],
        code_cache := [(7, demo_prompt, 500) \<mapsto> (0, ''x = 1'')]\<rparr>"

section \<open>Basic facts\<close>

lemma model_calls_append: "model_calls (xs @ ys) = model_calls xs @ model_calls ys"
  by (induction xs rule: model_calls.induct) simp_all

lemma store_calls_append: "store_calls (xs @ ys) = store_calls xs @ store_calls ys"
  by (induction xs rule: store_calls.induct) simp_all

lemma count_clear_append: "count_clear (xs @ ys) = count_clear xs + count_clear ys"
  by (simp add: count_clear_def)

lemmas monitor_defs =
  emit_def monitor_start_def monitor_end_def clear_memory_def clear_if_cuda_def

lemma split_from_words: "split_from [] (concat (replicate n ''w '')) = replicate n ''w''"
  by (induction n) (simp_all add: py_isspace_def)

lemma py_split_words: "length (py_split (words_prompt n)) = n"
  by (simp add: py_split_def words_prompt_def split_from_words)

lemma body_model_calls:
  "model_calls (trace (snd (generate_code_cached_body e g p n s))) =
     model_calls (trace s) @ [(g, p, max 500 (int (length (py_split p)) + 200))]"
  by (simp add: generate_code_cached_body_def monitor_defs model_calls_append Let_def
           split: sum.splits)

section \<open>The generation length\<close>

text \<open>
  Claim C2. Whatever the prompt and the requested \<open>max_length\<close>, a call of
  \<open>generate_code_cached\<close> that reaches the model passes it the length
  \<open>max(500, wordCount(prompt) + 200)\<close> of the specification, and a call served from the
  cache makes no model call at all. A prompt of 50 words gives 500, a prompt of 400 words
  gives 600, and a requested length of 50 does not bring the value under 500.
\<close>

theorem generation_length_formula:
  "model_calls (trace (snd (generate_code_cached e g p n s))) =
     model_calls (trace s) @
       (case fresh generate_code_cached_ttl (clock s) (code_cache s (g, p, n)) of
          Some r \<Rightarrow> []
        | None \<Rightarrow> [(g, p, effectiveLength_spec p n)])
   \<and> effectiveLength_spec p n = max 500 (int (length (py_split p)) + 200)
   \<and> (length (py_split p) = 50 \<longrightarrow> effectiveLength_spec p n = 500)
   \<and> (length (py_split p) = 400 \<longrightarrow> effectiveLength_spec p n = 600)
   \<and> 500 \<le> effectiveLength_spec p 50"
proof -
  have "model_calls (trace (snd (generate_code_cached e g p n s))) =
     model_calls (trace s) @
       (case fresh generate_code_cached_ttl (clock s) (code_cache s (g, p, n)) of
          Some r \<Rightarrow> []
        | None \<Rightarrow> [(g, p, effectiveLength_spec p n)])"
    using body_model_calls [of e g p n s]
    by (auto simp add: generate_code_cached_def effectiveLength_spec_def
             split: option.splits sum.splits prod.splits)
  then show ?thesis
    by (simp add: effectiveLength_spec_def)
qed

theorem generation_length_formula_witness:
  "length (py_split (words_prompt 50)) = 50
   \<and> effectiveLength_spec (words_prompt 50) 50 = 500
   \<and> length (py_split (words_prompt 400)) = 400
   \<and> effectiveLength_spec (words_prompt 400) 1000 = 600
   \<and> model_calls (trace (snd (generate_code_cached demo_env 7 (words_prompt 400) 100 start_state)))
       = [(7, words_prompt 400, 600)]"
proof -
  have h50: "length (py_split (words_prompt 50)) = 50"
    by (rule py_split_words)
  have h400: "length (py_split (words_prompt 400)) = 400"
    by (rule py_split_words)
  have miss: "fresh generate_code_cached_ttl (clock start_state)
                (code_cache start_state (7, words_prompt 400, 100)) = None"
    by (simp add: fresh_def start_state_def)
  show ?thesis
    using generation_length_formula [of demo_env 7 "words_prompt 50" 50 start_state]
      generation_length_formula [of demo_env 7 "words_prompt 400" 1000 start_state]
      generation_length_formula [of demo_env 7 "words_prompt 400" 100 start_state]
      h50 h400 miss
    by (simp add: start_state_def)
qed

section \<open>Hits of the result caches\<close>

lemma get_similar_docs_hit:
  "docs_cache s (db, q, k) = Some (created, docs) \<Longrightarrow> clock s < created + 300 \<Longrightarrow>
   get_similar_docs e db q k s = (Inr docs, s)"
  by (simp add: get_similar_docs_def fresh_def get_similar_docs_ttl_def)

lemma generate_code_cached_hit:
  "code_cache s (g, p, n) = Some (created, r) \<Longrightarrow> clock s < created + 300 \<Longrightarrow>
   generate_code_cached e g p n s = (Inr r, s)"
  by (simp add: generate_code_cached_def fresh_def generate_code_cached_ttl_def)

lemma get_similar_docs_miss_stores:
  "fresh get_similar_docs_ttl (clock s) (docs_cache s (db, q, k)) = None \<Longrightarrow>
   get_similar_docs e db q k s = (Inr docs, s1) \<Longrightarrow>
   docs_cache s1 = (docs_cache s)((db, q, k) \<mapsto> (clock s, docs)) \<and> clock s1 = clock s
    \<and> trace s1 = trace s @ [MonStart ''similarity_search'', SimilaritySearch db q k,
                              MonEnd ''similarity_search'']
    \<and> similarity_search e db q k = Inr docs"
  by (auto simp add: get_similar_docs_def get_similar_docs_body_def monitor_defs Let_def
       split: sum.splits)

lemma generate_code_cached_miss_stores:
  "fresh generate_code_cached_ttl (clock s) (code_cache s (g, p, n)) = None \<Longrightarrow>
   generate_code_cached e g p n s = (Inr r, s1) \<Longrightarrow>
   code_cache s1 = (code_cache s)((g, p, n) \<mapsto> (clock s, r)) \<and> clock s1 = clock s
    \<and> trace s1 = trace s @ [MonStart ''code_generation'',
          GenerateCode g p (max 500 (int (length (py_split p)) + 200)),
          MonEnd ''code_generation'']
    \<and> generate_code e g p (max 500 (int (length (py_split p)) + 200)) = Inr r"
  by (auto simp add: generate_code_cached_def generate_code_cached_body_def monitor_defs Let_def
       split: sum.splits)

lemma split_hi: "py_split ''hi'' = [''hi'']"
  by (simp add: py_split_def py_isspace_def)

lemma first_search:
  "get_similar_docs demo_env 1 ''sort a list'' 3 start_state = (Inr [''doc''], docs_state)"
  by (simp add: get_similar_docs_def get_similar_docs_body_def fresh_def
        monitor_defs start_state_def demo_env_def docs_state_def)

lemma first_generation:
  "generate_code_cached demo_env 7 ''hi'' 100 start_state = (Inr ''x = 1'', code_state)"
  by (simp add: generate_code_cached_def generate_code_cached_body_def fresh_def split_hi
        monitor_defs start_state_def demo_env_def code_state_def)

text \<open>
  Claim C4. A pair stored in the cache of \<open>get_similar_docs\<close> or of
  \<open>generate_code_cached\<close> is served to a call with an equal key as long as the clock is
  within 300 seconds of the pair's creation: the call returns the stored value and leaves
  the state as it was, so no event is added and the collaborator is not called. The same
  holds for the pair that a missing call has just stored: a second call with the same
  arguments in the following 300 seconds returns the same value with no further call of
  the store or of the model, whatever they would answer.
\<close>

theorem cache_hit_stability:
  "(docs_cache s (db, q, k) = Some (created, docs) \<and> clock s < created + 300
      \<longrightarrow> get_similar_docs e db q k s = (Inr docs, s))
   \<and> (code_cache s (g, p, n) = Some (created', r) \<and> clock s < created' + 300
      \<longrightarrow> generate_code_cached e g p n s = (Inr r, s))
   \<and> (fresh get_similar_docs_ttl (clock s) (docs_cache s (db, q, k)) = None
       \<and> get_similar_docs e db q k s = (Inr docs, s1) \<and> clock s \<le> t \<and> t < clock s + 300
      \<longrightarrow> get_similar_docs e' db q k (s1\<lparr>clock := t\<rparr>) = (Inr docs, s1\<lparr>clock := t\<rparr>)
          \<and> store_calls (trace (snd (get_similar_docs e' db q k (s1\<lparr>clock := t\<rparr>))))
              = store_calls (trace s1))
   \<and> (fresh generate_code_cached_ttl (clock s) (code_cache s (g, p, n)) = None
       \<and> generate_code_cached e g p n s = (Inr r, s2) \<and> clock s \<le> t \<and> t < clock s + 300
      \<longrightarrow> generate_code_cached e' g p n (s2\<lparr>clock := t\<rparr>) = (Inr r, s2\<lparr>clock := t\<rparr>)
          \<and> model_calls (trace (snd (generate_code_cached e' g p n (s2\<lparr>clock := t\<rparr>))))
              = model_calls (trace s2))"
proof (intro conjI impI)
  assume "docs_cache s (db, q, k) = Some (created, docs) \<and> clock s < created + 300"
  then show "get_similar_docs e db q k s = (Inr docs, s)"
    by (simp add: get_similar_docs_hit)
next
  assume "code_cache s (g, p, n) = Some (created', r) \<and> clock s < created' + 300"
  then show "generate_code_cached e g p n s = (Inr r, s)"
    by (simp add: generate_code_cached_hit)
next
  assume a: "fresh get_similar_docs_ttl (clock s) (docs_cache s (db, q, k)) = None
       \<and> get_similar_docs e db q k s = (Inr docs, s1) \<and> clock s \<le> t \<and> t < clock s + 300"
  then have "docs_cache s1 (db, q, k) = Some (clock s, docs)"
    using get_similar_docs_miss_stores [of s db q k e docs s1] by simp
  with a show hit:
    "get_similar_docs e' db q k (s1\<lparr>clock := t\<rparr>) = (Inr docs, s1\<lparr>clock := t\<rparr>)"
    by (simp add: get_similar_docs_hit)
  then show "store_calls (trace (snd (get_similar_docs e' db q k (s1\<lparr>clock := t\<rparr>))))
              = store_calls (trace s1)"
    by simp
next
  assume a: "fresh generate_code_cached_ttl (clock s) (code_cache s (g, p, n)) = None
       \<and> generate_code_cached e g p n s = (Inr r, s2) \<and> clock s \<le> t \<and> t < clock s + 300"
  then have "code_cache s2 (g, p, n) = Some (clock s, r)"
    using generate_code_cached_miss_stores [of s g p n e r s2] by simp
  with a show hit:
    "generate_code_cached e' g p n (s2\<lparr>clock := t\<rparr>) = (Inr r, s2\<lparr>clock := t\<rparr>)"
    by (simp add: generate_code_cached_hit)
  then show "model_calls (trace (snd (generate_code_cached e' g p n (s2\<lparr>clock := t\<rparr>))))
              = model_calls (trace s2)"
    by simp
qed

theorem cache_hit_stability_witness:
  "docs_cache docs_state (1, ''sort a list'', 3) = Some (0, [''doc''])
   \<and> get_similar_docs broken_env 1 ''sort a list'' 3 (docs_state\<lparr>clock := 299\<rparr>)
       = (Inr [''doc''], docs_state\<lparr>clock := 299\<rparr>)
   \<and> code_cache code_state (7, ''hi'', 100) = Some (0, ''x = 1'')
   \<and> generate_code_cached broken_env 7 ''hi'' 100 (code_state\<lparr>clock := 299\<rparr>)
       = (Inr ''x = 1'', code_state\<lparr>clock := 299\<rparr>)
   \<and> get_similar_docs demo_env 1 ''sort a list'' 3 start_state = (Inr [''doc''], docs_state)
   \<and> store_calls (trace (snd (get_similar_docs broken_env 1 ''sort a list'' 3
         (docs_state\<lparr>clock := 299\<rparr>)))) = [(1, ''sort a list'', 3)]
   \<and> generate_code_cached demo_env 7 ''hi'' 100 start_state = (Inr ''x = 1'', code_state)
   \<and> model_calls (trace (snd (generate_code_cached broken_env 7 ''hi'' 100
         (code_state\<lparr>clock := 299\<rparr>)))) = [(7, ''hi'', 500)]"
proof -
  have stored: "docs_cache (docs_state\<lparr>clock := 299\<rparr>) (1, ''sort a list'', 3) = Some (0, [''doc''])
      \<and> clock (docs_state\<lparr>clock := 299\<rparr>) < 0 + 300
      \<and> code_cache (code_state\<lparr>clock := 299\<rparr>) (7, ''hi'', 100) = Some (0, ''x = 1'')
      \<and> clock (code_state\<lparr>clock := 299\<rparr>) < 0 + 300"
    by (simp add: docs_state_def code_state_def start_state_def)
  have miss: "fresh get_similar_docs_ttl (clock start_state)
                (docs_cache start_state (1, ''sort a list'', 3)) = None
      \<and> fresh generate_code_cached_ttl (clock start_state)
                (code_cache start_state (7, ''hi'', 100)) = None
      \<and> clock start_state \<le> 299 \<and> 299 < clock start_state + 300"
    by (simp add: fresh_def start_state_def)
  have obs: "store_calls (trace docs_state) = [(1, ''sort a list'', 3)]
      \<and> model_calls (trace code_state) = [(7, ''hi'', 500)]"
    by (simp add: docs_state_def code_state_def start_state_def)
  show ?thesis
    using cache_hit_stability [of "docs_state\<lparr>clock := 299\<rparr>" 1 "''sort a list''" 3 0 "[''doc'']"
            broken_env 7 "''hi''" 100 0 "''x = 1''" "docs_state\<lparr>clock := 299\<rparr>" 299 broken_env
            "code_state\<lparr>clock := 299\<rparr>"]
      cache_hit_stability [of start_state 1 "''sort a list''" 3 0 "[''doc'']"
            demo_env 7 "''hi''" 100 0 "''x = 1''" docs_state 299 broken_env code_state]
      stored miss obs first_search first_generation
    by simp
qed

section \<open>The key of the generation cache\<close>

text \<open>
  Claim C5. The cache of \<open>generate_code_cached\<close> is keyed by the arguments of the call,
  so by the requested \<open>max_length\<close> and not by the length computed inside the body. A
  call that misses passes the computed length to the model and stores the result under
  the requested one, and under no other length; a second call with the same generator,
  prompt and requested length within 300 seconds is served from the cache.
\<close>

theorem requested_length_is_key:
  "fresh generate_code_cached_ttl (clock s) (code_cache s (g, p, n)) = None
   \<and> generate_code_cached e g p n s = (Inr r, s1) \<and> clock s \<le> t \<and> t < clock s + 300
   \<longrightarrow> model_calls (trace s1) =
         model_calls (trace s) @ [(g, p, max 500 (int (length (py_split p)) + 200))]
       \<and> code_cache s1 (g, p, n) = Some (clock s, r)
       \<and> (n' \<noteq> n \<longrightarrow> code_cache s1 (g, p, n') = code_cache s (g, p, n'))
       \<and> generate_code_cached e' g p n (s1\<lparr>clock := t\<rparr>) = (Inr r, s1\<lparr>clock := t\<rparr>)"
proof
  assume a: "fresh generate_code_cached_ttl (clock s) (code_cache s (g, p, n)) = None
   \<and> generate_code_cached e g p n s = (Inr r, s1) \<and> clock s \<le> t \<and> t < clock s + 300"
  then have st: "code_cache s1 = (code_cache s)((g, p, n) \<mapsto> (clock s, r))"
    and tr: "trace s1 = trace s @ [MonStart ''code_generation'',
          GenerateCode g p (max 500 (int (length (py_split p)) + 200)),
          MonEnd ''code_generation'']"
    using generate_code_cached_miss_stores [of s g p n e r s1] by simp_all
  have hit: "generate_code_cached e' g p n (s1\<lparr>clock := t\<rparr>) = (Inr r, s1\<lparr>clock := t\<rparr>)"
    using a st by (simp add: generate_code_cached_hit)
  show "model_calls (trace s1) =
         model_calls (trace s) @ [(g, p, max 500 (int (length (py_split p)) + 200))]
       \<and> code_cache s1 (g, p, n) = Some (clock s, r)
       \<and> (n' \<noteq> n \<longrightarrow> code_cache s1 (g, p, n') = code_cache s (g, p, n'))
       \<and> generate_code_cached e' g p n (s1\<lparr>clock := t\<rparr>) = (Inr r, s1\<lparr>clock := t\<rparr>)"
    using st tr hit by (simp add: model_calls_append)
qed

theorem requested_length_is_key_witness:
  "fresh generate_code_cached_ttl (clock start_state)
     (code_cache start_state (7, ''hi'', 100)) = None
   \<and> generate_code_cached demo_env 7 ''hi'' 100 start_state = (Inr ''x = 1'', code_state)
   \<and> model_calls (trace code_state) = [(7, ''hi'', 500)]
   \<and> code_cache code_state (7, ''hi'', 100) = Some (0, ''x = 1'')
   \<and> code_cache code_state (7, ''hi'', 500) = None
   \<and> generate_code_cached broken_env 7 ''hi'' 100 (code_state\<lparr>clock := 299\<rparr>)
       = (Inr ''x = 1'', code_state\<lparr>clock := 299\<rparr>)"
proof -
  have miss: "fresh generate_code_cached_ttl (clock start_state)
                (code_cache start_state (7, ''hi'', 100)) = None"
    by (simp add: fresh_def start_state_def)
  have time: "clock start_state \<le> 299 \<and> 299 < clock start_state + 300"
    by (simp add: start_state_def)
  show ?thesis
    using requested_length_is_key [of start_state 7 "''hi''" 100 demo_env "''x = 1''"
            code_state 299 500 broken_env] miss first_generation time
    by (simp add: start_state_def split_hi)
qed

section \<open>A missing handle stops the run\<close>

lemma init_components_calls:
  "store_calls (trace (snd (init_components e s))) = store_calls (trace s)
   \<and> model_calls (trace (snd (init_components e s))) = model_calls (trace s)"
  by (simp add: init_components_def init_components_body_def init_failed_def monitor_defs
        Let_def store_calls_append model_calls_append split: option.splits sum.splits)

text \<open>
  Claim C10. When \<open>init_components\<close> gives no store handle or no generator handle, the
  run ends at \<^verbatim>\<open>st.stop()\<close> right after it: the only event added after the
  initialisation is the stop, no similarity search and no generation call is made, and the
  result caches are as they were.
\<close>

theorem missing_handle_halts:
  "init_components e (monitor_start ''app_startup'' s) = ((d, g), s1) \<and> (d = None \<or> g = None)
   \<longrightarrow> main e inp s = emit StStop s1
       \<and> store_calls (trace (main e inp s)) = store_calls (trace s)
       \<and> model_calls (trace (main e inp s)) = model_calls (trace s)
       \<and> docs_cache (main e inp s) = docs_cache s
       \<and> code_cache (main e inp s) = code_cache s"
proof
  assume a: "init_components e (monitor_start ''app_startup'' s) = ((d, g), s1) \<and> (d = None \<or> g = None)"
  then have m: "main e inp s = emit StStop s1"
    by (auto simp add: main_def split: option.splits)
  have c: "store_calls (trace s1) = store_calls (trace s) \<and> model_calls (trace s1) = model_calls (trace s)"
    using a init_components_calls [of e "monitor_start ''app_startup'' s"]
    by (simp add: monitor_defs store_calls_append model_calls_append)
  have k: "docs_cache s1 = docs_cache s \<and> code_cache s1 = code_cache s"
    using a
    by (auto simp add: init_components_def init_components_body_def init_failed_def monitor_defs
        Let_def split: option.splits sum.splits)
  show "main e inp s = emit StStop s1
       \<and> store_calls (trace (main e inp s)) = store_calls (trace s)
       \<and> model_calls (trace (main e inp s)) = model_calls (trace s)
       \<and> docs_cache (main e inp s) = docs_cache s
       \<and> code_cache (main e inp s) = code_cache s"
    using m c k by (simp add: emit_def store_calls_append model_calls_append)
qed

lemma failed_init:
  "init_components broken_env (monitor_start ''app_startup'' start_state) = ((None, None), failed_state)"
  by (simp add: init_components_def init_components_body_def init_failed_def monitor_defs fresh_def
        start_state_def broken_env_def failed_state_def)

theorem missing_handle_halts_witness:
  "init_components broken_env (monitor_start ''app_startup'' start_state) = ((None, None), failed_state)
   \<and> main broken_env demo_inputs start_state = emit StStop failed_state
   \<and> store_calls (trace (main broken_env demo_inputs start_state)) = []
   \<and> model_calls (trace (main broken_env demo_inputs start_state)) = []"
proof -
  have t0: "trace start_state = []"
    by (simp add: start_state_def)
  show ?thesis
    using missing_handle_halts [of broken_env start_state None None failed_state demo_inputs]
      failed_init t0
    by auto
qed


section \<open>Construction failure in the component cache\<close>

lemma failed_construction:
  "init_components broken_env start_state = ((None, None), poisoned_state)"
  by (simp add: init_components_def init_components_body_def init_failed_def monitor_defs fresh_def
        start_state_def broken_env_def poisoned_state_def)

text \<open>
  Claim C1 says that a construction failure stores nothing in the component cache and
  that the next call retries. The run below refutes it: on a process with an empty cache
  the store cannot be built, \<open>init_components\<close> returns the pair of Nones, the cache
  then holds that pair, and a call one minute later on a machine where the construction
  would succeed is served the pair from the cache, with no event added.
\<close>

theorem failed_entry_counterexample:
  "resource_cache start_state = None
   \<and> create_or_load_db broken_env = Inl ''no index''
   \<and> init_components broken_env start_state = ((None, None), poisoned_state)
   \<and> resource_cache poisoned_state = Some (0, (None, None))
   \<and> create_or_load_db demo_env = Inr 1 \<and> new_generator demo_env = Inr 7
   \<and> init_components demo_env (poisoned_state\<lparr>clock := 60\<rparr>)
       = ((None, None), poisoned_state\<lparr>clock := 60\<rparr>)"
  by (simp add: failed_construction)
     (simp add: init_components_def fresh_def init_components_ttl_def poisoned_state_def
        start_state_def broken_env_def demo_env_def)

lemma init_components_hit:
  "resource_cache s = Some (created, v) \<Longrightarrow> clock s < created + 3600 \<Longrightarrow>
   init_components e s = (v, s)"
  by (simp add: init_components_def fresh_def init_components_ttl_def)

lemma init_components_failure:
  "fresh init_components_ttl (clock s) (resource_cache s) = None \<Longrightarrow>
   create_or_load_db e = Inl msg \<or> (create_or_load_db e = Inr db \<and> new_generator e = Inl msg) \<Longrightarrow>
   init_components e s = (v, s1) \<Longrightarrow>
   v = (None, None) \<and> resource_cache s1 = Some (clock s, (None, None)) \<and> clock s1 = clock s
   \<and> docs_cache s1 = docs_cache s \<and> code_cache s1 = code_cache s
   \<and> (\<exists>evs. trace s1 = trace s @ evs @
         [LogError (''Error initializing components: '' @ msg),
          StError (''Error initializing components: '' @ msg)])"
  by (auto simp add: init_components_def init_components_body_def init_failed_def monitor_defs
        Let_def split: option.splits sum.splits)

text \<open>
  Claim C1, amended. When the construction of the store or of the generator raises, the
  handler of \<open>init_components\<close> logs the error, shows it on the page and returns
  \<open>(None, None)\<close> as an ordinary result. The component cache stores that pair with the
  current time: every call in the following 3600 seconds gets \<open>(None, None)\<close> from the
  cache without a new construction, and only from then on the entry counts as expired.
  The body runs only when the cache has no valid entry: with a valid entry the call
  returns it and changes nothing, so a failure never replaces a valid entry.
\<close>

theorem construction_failure_is_cached:
  "(fresh init_components_ttl (clock s) (resource_cache s) = None
    \<and> (create_or_load_db e = Inl msg \<or> (create_or_load_db e = Inr db \<and> new_generator e = Inl msg))
    \<and> init_components e s = (v, s1)
    \<longrightarrow> v = (None, None)
        \<and> resource_cache s1 = Some (clock s, (None, None))
        \<and> docs_cache s1 = docs_cache s \<and> code_cache s1 = code_cache s
        \<and> (\<exists>evs. trace s1 = trace s @ evs @
              [LogError (''Error initializing components: '' @ msg),
               StError (''Error initializing components: '' @ msg)])
        \<and> (clock s \<le> t \<and> t < clock s + 3600
             \<longrightarrow> init_components e' (s1\<lparr>clock := t\<rparr>) = ((None, None), s1\<lparr>clock := t\<rparr>))
        \<and> (clock s + 3600 \<le> t
             \<longrightarrow> fresh init_components_ttl t (resource_cache s1) = None))
   \<and> (fresh init_components_ttl (clock s) (resource_cache s) = Some v'
        \<longrightarrow> init_components e s = (v', s))"
proof (intro conjI impI)
  assume "fresh init_components_ttl (clock s) (resource_cache s) = Some v'"
  then show "init_components e s = (v', s)"
    by (simp add: init_components_def)
next
  assume a: "fresh init_components_ttl (clock s) (resource_cache s) = None
    \<and> (create_or_load_db e = Inl msg \<or> (create_or_load_db e = Inr db \<and> new_generator e = Inl msg))
    \<and> init_components e s = (v, s1)"
  note f = init_components_failure [of s e msg db v s1]
  from a f show "v = (None, None)" by blast
  from a f show rc: "resource_cache s1 = Some (clock s, (None, None))" by blast
  from a f show "docs_cache s1 = docs_cache s" by blast
  from a f show "code_cache s1 = code_cache s" by blast
  from a f show "\<exists>evs. trace s1 = trace s @ evs @
              [LogError (''Error initializing components: '' @ msg),
               StError (''Error initializing components: '' @ msg)]" by blast
  { assume "clock s \<le> t \<and> t < clock s + 3600"
    with rc show "init_components e' (s1\<lparr>clock := t\<rparr>) = ((None, None), s1\<lparr>clock := t\<rparr>)"
      by (simp add: init_components_hit) }
  { assume "clock s + 3600 \<le> t"
    with rc show "fresh init_components_ttl t (resource_cache s1) = None"
      by (simp add: fresh_def init_components_ttl_def) }
qed

theorem construction_failure_is_cached_witness:
  "fresh init_components_ttl (clock start_state) (resource_cache start_state) = None
   \<and> create_or_load_db broken_env = Inl ''no index''
   \<and> init_components broken_env start_state = ((None, None), poisoned_state)
   \<and> resource_cache poisoned_state = Some (0, (None, None))
   \<and> init_components demo_env (poisoned_state\<lparr>clock := 3599\<rparr>)
       = ((None, None), poisoned_state\<lparr>clock := 3599\<rparr>)
   \<and> fresh init_components_ttl 3600 (resource_cache poisoned_state) = None
   \<and> fresh init_components_ttl (clock warm_state) (resource_cache warm_state) = Some (Some 1, Some 7)
   \<and> init_components broken_env warm_state = ((Some 1, Some 7), warm_state)"
proof -
  have miss: "fresh init_components_ttl (clock start_state) (resource_cache start_state) = None"
    by (simp add: fresh_def start_state_def)
  have fails: "create_or_load_db broken_env = Inl ''no index''"
    by (simp add: broken_env_def)
  have time: "clock start_state \<le> 3599 \<and> 3599 < clock start_state + 3600
      \<and> clock start_state + 3600 \<le> 3600 \<and> clock start_state = 0"
    by (simp add: start_state_def)
  have warm: "fresh init_components_ttl (clock warm_state) (resource_cache warm_state)
      = Some (Some 1, Some 7)"
    by (simp add: fresh_def warm_state_def start_state_def init_components_ttl_def)
  show ?thesis
    using construction_failure_is_cached [of start_state broken_env "''no index''" 0
            "(None, None)" poisoned_state 3599 demo_env "(Some 1, Some 7)"]
      construction_failure_is_cached [of start_state broken_env "''no index''" 0
            "(None, None)" poisoned_state 3600 demo_env "(Some 1, Some 7)"]
      construction_failure_is_cached [of warm_state broken_env "''no index''" 0
            "(None, None)" poisoned_state 3600 demo_env "(Some 1, Some 7)"]
      miss fails time warm failed_construction
    by auto
qed

section \<open>What each step leaves unchanged\<close>

lemma stats_step_frame:
  "resource_cache (stats_step e inp s) = resource_cache s
   \<and> docs_cache (stats_step e inp s) = docs_cache s
   \<and> code_cache (stats_step e inp s) = code_cache s
   \<and> clock (stats_step e inp s) = clock s"
  by (simp add: stats_step_def get_system_stats_def monitor_defs Let_def split: sum.splits prod.splits)

lemma refresh_step_frame:
  "resource_cache (snd (refresh_step e inp db s)) = resource_cache s
   \<and> docs_cache (snd (refresh_step e inp db s)) = docs_cache s
   \<and> code_cache (snd (refresh_step e inp db s)) = code_cache s
   \<and> clock (snd (refresh_step e inp db s)) = clock s"
  by (simp add: refresh_step_def monitor_defs Let_def split: sum.splits)

lemma get_similar_docs_frame:
  "resource_cache (snd (get_similar_docs e db q k s)) = resource_cache s
   \<and> code_cache (snd (get_similar_docs e db q k s)) = code_cache s
   \<and> clock (snd (get_similar_docs e db q k s)) = clock s"
  by (simp add: get_similar_docs_def get_similar_docs_body_def monitor_defs Let_def
        split: sum.splits option.splits)

lemma generate_code_cached_frame:
  "resource_cache (snd (generate_code_cached e g p n s)) = resource_cache s
   \<and> docs_cache (snd (generate_code_cached e g p n s)) = docs_cache s
   \<and> clock (snd (generate_code_cached e g p n s)) = clock s"
  by (simp add: generate_code_cached_def generate_code_cached_body_def monitor_defs Let_def
        split: sum.splits option.splits)

lemma show_references_frame:
  "resource_cache (show_references i ds s) = resource_cache s
   \<and> docs_cache (show_references i ds s) = docs_cache s
   \<and> code_cache (show_references i ds s) = code_cache s
   \<and> clock (show_references i ds s) = clock s"
  by (induction i ds s rule: show_references.induct) (simp_all add: emit_def)

lemma get_similar_docs_frameD:
  "get_similar_docs e db q k s = (r, s') \<Longrightarrow>
   resource_cache s' = resource_cache s \<and> code_cache s' = code_cache s \<and> clock s' = clock s"
  using get_similar_docs_frame [of e db q k s] by simp

lemma generate_code_cached_frameD:
  "generate_code_cached e g p n s = (r, s') \<Longrightarrow>
   resource_cache s' = resource_cache s \<and> docs_cache s' = docs_cache s \<and> clock s' = clock s"
  using generate_code_cached_frame [of e g p n s] by simp

lemma request_body_resource:
  "resource_cache (snd (request_body e inp db g s)) = resource_cache s
   \<and> clock (snd (request_body e inp db g s)) = clock s"
  by (auto simp add: request_body_def Let_def show_references_frame monitor_defs
        split: prod.splits sum.splits
        dest!: get_similar_docs_frameD generate_code_cached_frameD)

lemma request_step_resource:
  "resource_cache (request_step e inp db g s) = resource_cache s"
  using request_body_resource [of e inp db g s]
  by (auto simp add: request_step_def emit_def split: prod.splits sum.splits)

section \<open>The explicit refresh\<close>

lemma warm_init:
  "init_components e (monitor_start ''app_startup'' warm_state)
     = ((Some 1, Some 7), monitor_start ''app_startup'' warm_state)"
  by (simp add: init_components_def fresh_def init_components_ttl_def warm_state_def
        start_state_def monitor_defs)

lemma refresh_run:
  "main demo_env refresh_inputs warm_state =
     warm_state\<lparr>trace := [MonStart ''app_startup'', MonStart ''refresh_database'',
        RefreshDatabase, MonEnd ''refresh_database'',
        StSuccess ''Database refreshed successfully!'', ClearMemory, MonEnd ''app_startup'']\<rparr>"
  by (simp add: main_def warm_init stats_step_def refresh_step_def request_step_def
        refresh_inputs_def demo_inputs_def demo_env_def Let_def)
     (simp add: monitor_defs warm_state_def start_state_def)

text \<open>
  Claim C3 says that the explicit refresh discards the entry of the component cache and
  installs a new one with a fresh creation time. The run below refutes it: the components
  were cached at time 0, the refresh button is clicked at time 100 and
  \<open>refresh_database\<close> returns the new store 2, yet after the run the cache still holds
  the entry of time 0 with the store 1, and the next call of \<open>init_components\<close> returns
  that old pair.
\<close>

theorem refresh_keeps_entry_counterexample:
  "refresh_clicked refresh_inputs
   \<and> refresh_database demo_env = Inr 2
   \<and> clock warm_state = 100
   \<and> resource_cache warm_state = Some (0, (Some 1, Some 7))
   \<and> resource_cache (main demo_env refresh_inputs warm_state) = Some (0, (Some 1, Some 7))
   \<and> fst (init_components demo_env (main demo_env refresh_inputs warm_state)) = (Some 1, Some 7)"
  by (simp add: refresh_run)
     (simp add: refresh_inputs_def demo_inputs_def demo_env_def warm_state_def start_state_def
        init_components_def fresh_def init_components_ttl_def)

text \<open>
  Claim C3, amended. The explicit refresh does not touch the component cache: after a
  run the cache holds what \<open>init_components\<close> left in it, value and creation time. The
  refresh rebuilds only the store handle: when \<open>refresh_database\<close> returns, the run
  opens the timing record \<^verbatim>\<open>"refresh_database"\<close> before the rebuild, closes it after,
  reports success, and goes on with the new store handle and the generator handle it got
  from \<open>init_components\<close>; when \<open>refresh_database\<close> raises, the error is logged and
  shown and the run goes on with the store handle it had.
\<close>

theorem refresh_rebinds_store_only:
  "(refresh_clicked inp \<and> refresh_database e = Inr db'
      \<longrightarrow> refresh_step e inp db s =
            (db', s\<lparr>trace := trace s @
               [MonStart ''refresh_database'', RefreshDatabase, MonEnd ''refresh_database'',
                StSuccess ''Database refreshed successfully!''] @
               (if cuda_available e then [ClearMemory] else [])\<rparr>))
   \<and> (refresh_clicked inp \<and> refresh_database e = Inl msg
      \<longrightarrow> refresh_step e inp db s =
            (db, s\<lparr>trace := trace s @
               [MonStart ''refresh_database'', RefreshDatabase,
                LogError (''Error refreshing database: '' @ msg),
                StError (''Error refreshing database: '' @ msg)]\<rparr>))
   \<and> (init_components e (monitor_start ''app_startup'' s) = ((Some db, Some g), s1)
      \<longrightarrow> resource_cache (main e inp s) = resource_cache s1
          \<and> main e inp s =
              monitor_end ''app_startup''
                (request_step e inp (fst (refresh_step e inp db (stats_step e inp s1))) g
                   (snd (refresh_step e inp db (stats_step e inp s1)))))"
proof (intro conjI impI)
  assume "refresh_clicked inp \<and> refresh_database e = Inr db'"
  then show "refresh_step e inp db s =
            (db', s\<lparr>trace := trace s @
               [MonStart ''refresh_database'', RefreshDatabase, MonEnd ''refresh_database'',
                StSuccess ''Database refreshed successfully!''] @
               (if cuda_available e then [ClearMemory] else [])\<rparr>)"
    by (simp add: refresh_step_def monitor_defs)
next
  assume "refresh_clicked inp \<and> refresh_database e = Inl msg"
  then show "refresh_step e inp db s =
            (db, s\<lparr>trace := trace s @
               [MonStart ''refresh_database'', RefreshDatabase,
                LogError (''Error refreshing database: '' @ msg),
                StError (''Error refreshing database: '' @ msg)]\<rparr>)"
    by (simp add: refresh_step_def monitor_defs)
next
  assume a: "init_components e (monitor_start ''app_startup'' s) = ((Some db, Some g), s1)"
  then show m: "main e inp s =
              monitor_end ''app_startup''
                (request_step e inp (fst (refresh_step e inp db (stats_step e inp s1))) g
                   (snd (refresh_step e inp db (stats_step e inp s1))))"
    by (simp add: main_def Let_def split: prod.splits)
  show "resource_cache (main e inp s) = resource_cache s1"
    by (simp add: m monitor_end_def emit_def request_step_resource refresh_step_frame
          stats_step_frame)
qed

theorem refresh_rebinds_store_only_witness:
  "refresh_clicked refresh_inputs \<and> refresh_database demo_env = Inr 2
   \<and> refresh_step demo_env refresh_inputs 1 warm_state =
       (2, warm_state\<lparr>trace := [MonStart ''refresh_database'', RefreshDatabase,
             MonEnd ''refresh_database'', StSuccess ''Database refreshed successfully!'',
             ClearMemory]\<rparr>)
   \<and> refresh_database broken_env = Inl ''no documents''
   \<and> refresh_step broken_env refresh_inputs 1 warm_state =
       (1, warm_state\<lparr>trace := [MonStart ''refresh_database'', RefreshDatabase,
             LogError ''Error refreshing database: no documents'',
             StError ''Error refreshing database: no documents'']\<rparr>)
   \<and> init_components demo_env (monitor_start ''app_startup'' warm_state)
       = ((Some 1, Some 7), monitor_start ''app_startup'' warm_state)
   \<and> resource_cache (main demo_env refresh_inputs warm_state) = Some (0, (Some 1, Some 7))"
proof -
  have h: "refresh_clicked refresh_inputs \<and> refresh_database demo_env = Inr 2
      \<and> refresh_database broken_env = Inl ''no documents'' \<and> cuda_available demo_env"
    by (simp add: refresh_inputs_def demo_inputs_def demo_env_def broken_env_def)
  have w: "trace warm_state = []
      \<and> resource_cache (monitor_start ''app_startup'' warm_state) = Some (0, (Some 1, Some 7))"
    by (simp add: warm_state_def start_state_def monitor_defs)
  show ?thesis
    using refresh_rebinds_store_only [of refresh_inputs demo_env 2 1 warm_state
            "''no documents''" 7 "monitor_start ''app_startup'' warm_state"]
      refresh_rebinds_store_only [of refresh_inputs broken_env 2 1 warm_state
            "''no documents''" 7 "monitor_start ''app_startup'' warm_state"]
      h w warm_init [of demo_env]
    by auto
qed

section \<open>Where the accelerator's memory is released\<close>

lemma count_clear_simps [simp]:
  "count_clear [] = 0"
  "count_clear (ev # es) = (if ev = ClearMemory then 1 else 0) + count_clear es"
  by (simp_all add: count_clear_def)

lemma init_components_clears:
  "count_clear (trace (snd (init_components e s))) =
     count_clear (trace s) +
       (if cuda_available e \<and> fresh init_components_ttl (clock s) (resource_cache s) = None
        then 1 else 0)"
  by (simp add: init_components_def init_components_body_def init_failed_def monitor_defs
        Let_def count_clear_append split: option.splits sum.splits)

lemma init_components_body_order:
  "\<exists>rest. trace (snd (init_components_body e s)) =
      trace s @ [MonStart ''init_components''] @
        (if cuda_available e then [ClearMemory] else []) @ CreateOrLoadDb # rest
      \<and> count_clear rest = 0"
  by (simp add: init_components_body_def init_failed_def monitor_defs Let_def
        split: sum.splits)

lemma stats_step_clears:
  "count_clear (trace (stats_step e inp s)) = count_clear (trace s)"
  by (simp add: stats_step_def get_system_stats_def monitor_defs Let_def count_clear_append
        split: sum.splits prod.splits)

lemma refresh_step_clears:
  "count_clear (trace (snd (refresh_step e inp db s))) =
     count_clear (trace s) +
       (if cuda_available e \<and> refresh_clicked inp
        then (case refresh_database e of Inr d \<Rightarrow> 1 | Inl m \<Rightarrow> 0) else 0)"
  by (simp add: refresh_step_def monitor_defs Let_def count_clear_append split: sum.splits)

lemma get_similar_docs_events:
  "\<exists>evs. trace (snd (get_similar_docs e db q k s)) = trace s @ evs \<and> count_clear evs = 0"
  by (simp add: get_similar_docs_def get_similar_docs_body_def monitor_defs Let_def
        split: sum.splits option.splits)

lemma generate_code_cached_events:
  "\<exists>evs. trace (snd (generate_code_cached e g p n s)) = trace s @ evs \<and> count_clear evs = 0"
  by (simp add: generate_code_cached_def generate_code_cached_body_def monitor_defs Let_def
        split: sum.splits option.splits)

lemma show_references_events:
  "\<exists>evs. trace (show_references i ds s) = trace s @ evs \<and> count_clear evs = 0"
proof (induction i ds s rule: show_references.induct)
  case (1 i s)
  then show ?case by simp
next
  case (2 i d ds s)
  then obtain evs where "trace (show_references (Suc i) ds (emit (StReference i d) s)) =
      trace (emit (StReference i d) s) @ evs" and "count_clear evs = 0"
    by blast
  then have "trace (show_references i (d # ds) s) = trace s @ (StReference i d # evs)
      \<and> count_clear (StReference i d # evs) = 0"
    by (simp add: emit_def)
  then show ?case by blast
qed

lemma quiet_iff: "quiet s s' = (\<exists>evs. trace s' = trace s @ evs \<and> count_clear evs = 0)"
proof
  assume "quiet s s'"
  then have "trace s' = trace s @ drop (length (trace s)) (trace s')
      \<and> count_clear (drop (length (trace s)) (trace s')) = 0"
    by (metis quiet_def append_take_drop_id)
  then show "\<exists>evs. trace s' = trace s @ evs \<and> count_clear evs = 0"
    by blast
next
  assume "\<exists>evs. trace s' = trace s @ evs \<and> count_clear evs = 0"
  then show "quiet s s'"
    by (auto simp add: quiet_def)
qed

lemma quiet_trans: "quiet s s' \<Longrightarrow> quiet s' s'' \<Longrightarrow> quiet s s''"
  by (auto simp add: quiet_iff count_clear_append)

lemma quiet_emit: "ev \<noteq> ClearMemory \<Longrightarrow> quiet s (emit ev s)"
  by (simp add: quiet_iff emit_def)

lemma quiet_get_similar_docs: "get_similar_docs e db q k s = (r, s') \<Longrightarrow> quiet s s'"
  using get_similar_docs_events [of e db q k s] by (simp add: quiet_iff)

lemma quiet_generate_code_cached: "generate_code_cached e g p n s = (r, s') \<Longrightarrow> quiet s s'"
  using generate_code_cached_events [of e g p n s] by (simp add: quiet_iff)

lemma quiet_show_references: "quiet s (show_references i ds s)"
  using show_references_events [of i ds s] by (simp add: quiet_iff)

lemma request_body_shape:
  "case request_body e inp db g s of
     (Inl msg, s') \<Rightarrow> quiet (clear_if_cuda e s) s'
   | (Inr u, s') \<Rightarrow> (\<exists>s6. quiet (clear_if_cuda e s) s6 \<and> s' = clear_if_cuda e s6)"
proof -
  let ?s1 = "clear_if_cuda e s"
  obtain r2 s2 where d: "get_similar_docs e db (user_query inp) 3 ?s1 = (r2, s2)"
    by (cases "get_similar_docs e db (user_query inp) 3 ?s1")
  then have q2: "quiet ?s1 s2" by (rule quiet_get_similar_docs)
  show ?thesis
  proof (cases r2)
    case (Inl msg)
    with d q2 show ?thesis by (simp add: request_body_def)
  next
    case (Inr docs)
    let ?prompt = "make_prompt (language inp) (user_query inp) (join newline docs)"
    obtain r3 s3 where c: "generate_code_cached e g ?prompt (max_length inp) s2 = (r3, s3)"
      by (cases "generate_code_cached e g ?prompt (max_length inp) s2")
    then have q3: "quiet ?s1 s3"
      using q2 quiet_generate_code_cached quiet_trans by blast
    show ?thesis
    proof (cases r3)
      case (Inl msg)
      with d Inr c q3 show ?thesis by (simp add: request_body_def)
    next
      case code: (Inr generated_code)
      let ?s4 = "emit (StCode generated_code) s3"
      have q4: "quiet ?s1 ?s4"
        using q3 quiet_emit [of "StCode generated_code" s3] quiet_trans by blast
      let ?explain = "''Explain this '' @ language inp @ '' code:'' @ newline @ generated_code"
      show ?thesis
      proof (cases "include_explanation inp")
        case False
        let ?s6 = "if show_context inp then show_references 1 docs ?s4 else ?s4"
        have "quiet ?s1 ?s6"
          using q4 quiet_show_references quiet_trans by (cases "show_context inp") auto
        with d Inr c code False show ?thesis
          by (auto simp add: request_body_def Let_def)
      next
        case True
        obtain r5 s5 where x: "generate_code_cached e g ?explain 300 ?s4 = (r5, s5)"
          by (cases "generate_code_cached e g ?explain 300 ?s4")
        then have q5: "quiet ?s1 s5"
          using q4 quiet_generate_code_cached quiet_trans by blast
        show ?thesis
        proof (cases r5)
          case (Inl msg)
          with d Inr c code True x q5 show ?thesis by (simp add: request_body_def Let_def)
        next
          case expl: (Inr explanation)
          let ?s5 = "emit (StWrite explanation) s5"
          let ?s6 = "if show_context inp then show_references 1 docs ?s5 else ?s5"
          have "quiet ?s1 ?s5"
            using q5 quiet_emit [of "StWrite explanation" s5] quiet_trans by blast
          then have "quiet ?s1 ?s6"
            using quiet_show_references quiet_trans by (cases "show_context inp") auto
          with d Inr c code True x expl show ?thesis
            by (auto simp add: request_body_def Let_def)
        qed
      qed
    qed
  qed
qed

lemma request_step_shape:
  assumes "generate_button inp \<and> user_query inp \<noteq> []"
  shows "\<exists>mid. trace (request_step e inp db g s) =
           trace s @ (if cuda_available e then [ClearMemory] else []) @ mid @
             (if isl (fst (request_body e inp db g s)) then []
              else (if cuda_available e then [ClearMemory] else []))
         \<and> count_clear mid = 0"
proof -
  obtain r s' where b: "request_body e inp db g s = (r, s')"
    by (cases "request_body e inp db g s")
  have c: "trace (clear_if_cuda e s) = trace s @ (if cuda_available e then [ClearMemory] else [])"
    by (simp add: monitor_defs)
  show ?thesis
  proof (cases r)
    case (Inl msg)
    with b have "quiet (clear_if_cuda e s) s'"
      using request_body_shape [where e=e and inp=inp and db=db and g=g and s=s] by simp
    then obtain evs where "trace s' = trace (clear_if_cuda e s) @ evs" and "count_clear evs = 0"
      by (auto simp add: quiet_iff)
    then have "trace (request_step e inp db g s) =
        trace s @ (if cuda_available e then [ClearMemory] else []) @
          (evs @ [LogError (''Error during code generation: '' @ msg),
                  StError (''An error occurred: '' @ msg)]) @
          (if isl (fst (request_body e inp db g s)) then []
           else (if cuda_available e then [ClearMemory] else []))
        \<and> count_clear (evs @ [LogError (''Error during code generation: '' @ msg),
                  StError (''An error occurred: '' @ msg)]) = 0"
      using assms b Inl c by (simp add: request_step_def emit_def count_clear_append)
    then show ?thesis
      by (rule exI)
  next
    case (Inr u)
    with b obtain s6 where "quiet (clear_if_cuda e s) s6" and s': "s' = clear_if_cuda e s6"
      using request_body_shape [where e=e and inp=inp and db=db and g=g and s=s] by auto
    then obtain evs where "trace s6 = trace (clear_if_cuda e s) @ evs" and "count_clear evs = 0"
      by (auto simp add: quiet_iff)
    then have "trace (request_step e inp db g s) =
        trace s @ (if cuda_available e then [ClearMemory] else []) @ evs @
          (if isl (fst (request_body e inp db g s)) then []
           else (if cuda_available e then [ClearMemory] else []))
        \<and> count_clear evs = 0"
      using assms b Inr c s' by (simp add: request_step_def monitor_defs)
    then show ?thesis
      by (rule exI)
  qed
qed

lemma request_step_clears:
  "count_clear (trace (request_step e inp db g s)) =
     count_clear (trace s) +
       (if cuda_available e \<and> generate_button inp \<and> user_query inp \<noteq> []
        then (if isl (fst (request_body e inp db g s)) then 1 else 2) else 0)"
proof (cases "generate_button inp \<and> user_query inp \<noteq> []")
  case True
  then show ?thesis
    using request_step_shape [where e=e and inp=inp and db=db and g=g and s=s]
    by (auto simp add: count_clear_append)
next
  case False
  then show ?thesis by (auto simp add: request_step_def)
qed

lemma main_clears:
  "count_clear (trace (main e inp s)) =
     count_clear (trace s) +
       (if cuda_available e then
          (if fresh init_components_ttl (clock s) (resource_cache s) = None then 1 else 0) +
          (case init_components e (monitor_start ''app_startup'' s) of
             ((Some db, Some g), s1) \<Rightarrow>
               (if refresh_clicked inp \<and> \<not> isl (refresh_database e) then 1 else 0) +
               (if generate_button inp \<and> user_query inp \<noteq> [] then
                  (if isl (fst (request_body e inp
                          (fst (refresh_step e inp db (stats_step e inp s1))) g
                          (snd (refresh_step e inp db (stats_step e inp s1)))))
                   then 1 else 2)
                else 0)
           | _ \<Rightarrow> 0)
        else 0)"
proof -
  let ?s0 = "monitor_start ''app_startup'' s"
  obtain d g s1 where i: "init_components e ?s0 = ((d, g), s1)"
    by (metis surj_pair)
  have c1: "count_clear (trace s1) = count_clear (trace s) +
       (if cuda_available e \<and> fresh init_components_ttl (clock s) (resource_cache s) = None
        then 1 else 0)"
    using init_components_clears [of e ?s0] i by (simp add: monitor_defs count_clear_append)
  show ?thesis
  proof (cases "d = None \<or> g = None")
    case True
    then have "main e inp s = emit StStop s1"
      using i by (auto simp add: main_def split: option.splits)
    then show ?thesis
      using c1 i True by (auto simp add: emit_def count_clear_append split: option.splits)
  next
    case False
    then obtain db gen where dg: "d = Some db" "g = Some gen" by auto
    let ?s2 = "stats_step e inp s1"
    let ?r = "refresh_step e inp db ?s2"
    have m: "main e inp s = monitor_end ''app_startup'' (request_step e inp (fst ?r) gen (snd ?r))"
      using i dg by (simp add: main_def Let_def split: prod.splits)
    have c3: "count_clear (trace (snd ?r)) = count_clear (trace s1) +
       (if cuda_available e \<and> refresh_clicked inp \<and> \<not> isl (refresh_database e) then 1 else 0)"
      using refresh_step_clears [of e inp db ?s2] stats_step_clears [of e inp s1]
      by (auto split: sum.splits)
    show ?thesis
      using c1 c3 request_step_clears [of e inp "fst ?r" gen "snd ?r"] i dg
      by (simp add: m monitor_defs count_clear_append)
  qed
qed

lemma demo_search_ok: "get_similar_docs demo_env db q k s = (r, s') \<Longrightarrow> \<not> isl r"
  by (auto simp add: get_similar_docs_def get_similar_docs_body_def demo_env_def Let_def
        split: option.splits)

lemma demo_generate_ok: "generate_code_cached demo_env g p n s = (r, s') \<Longrightarrow> \<not> isl r"
  by (auto simp add: generate_code_cached_def generate_code_cached_body_def demo_env_def Let_def
        split: option.splits)

lemma demo_request_ok: "fst (request_body demo_env inp db g s) = Inr ()"
  by (auto simp add: request_body_def Let_def split: prod.splits sum.splits
        dest: demo_search_ok demo_generate_ok)

lemma demo_init:
  "fst (init_components demo_env (monitor_start ''app_startup'' start_state)) = (Some 1, Some 7)"
  by (simp add: init_components_def init_components_body_def fresh_def demo_env_def
        start_state_def monitor_defs)

text \<open>
  Claim C8 says that \<open>releaseUnused\<close> is called before the singleton pair is discarded
  in an explicit refresh. The run below refutes it: with an accelerator, a warm component
  cache and the refresh button clicked, the only call of \<^verbatim>\<open>clear_memory\<close> in the run
  comes after \<open>refresh_database\<close> has returned and the success message is shown; none
  precedes the rebuild.
\<close>

theorem clear_before_refresh_counterexample:
  "cuda_available demo_env \<and> refresh_clicked refresh_inputs
   \<and> trace warm_state = []
   \<and> trace (main demo_env refresh_inputs warm_state) =
       [MonStart ''app_startup'', MonStart ''refresh_database'', RefreshDatabase,
        MonEnd ''refresh_database'', StSuccess ''Database refreshed successfully!'',
        ClearMemory, MonEnd ''app_startup'']"
  by (simp add: refresh_run)
     (simp add: demo_env_def refresh_inputs_def demo_inputs_def warm_state_def start_state_def)

text \<open>
  Claim C8, amended. With an accelerator available \<^verbatim>\<open>clear_memory\<close> is called at these
  points and nowhere else in a run: once in the body of \<open>init_components\<close>, before the
  store and the generator are constructed (so only when the component cache has no valid
  entry); once after an explicit refresh whose rebuild returned, after the rebuild and the
  success message; once at the start of a generation request; and once at the end of a
  generation request that raised no exception. Without an accelerator it is never called.
  The last conjunct counts the calls of a whole run.
\<close>

theorem clear_memory_points:
  "(\<exists>rest. trace (snd (init_components_body e s)) =
       trace s @ [MonStart ''init_components''] @
         (if cuda_available e then [ClearMemory] else []) @ CreateOrLoadDb # rest
       \<and> count_clear rest = 0)
   \<and> (generate_button inp \<and> user_query inp \<noteq> []
        \<longrightarrow> (\<exists>mid. trace (request_step e inp db g s) =
               trace s @ (if cuda_available e then [ClearMemory] else []) @ mid @
                 (if isl (fst (request_body e inp db g s)) then []
                  else (if cuda_available e then [ClearMemory] else []))
               \<and> count_clear mid = 0))
   \<and> (refresh_clicked inp \<and> refresh_database e = Inr db'
        \<longrightarrow> trace (snd (refresh_step e inp db s)) =
              trace s @ [MonStart ''refresh_database'', RefreshDatabase,
                MonEnd ''refresh_database'', StSuccess ''Database refreshed successfully!''] @
                (if cuda_available e then [ClearMemory] else []))
   \<and> count_clear (trace (main e inp s)) =
       count_clear (trace s) +
         (if cuda_available e then
            (if fresh init_components_ttl (clock s) (resource_cache s) = None then 1 else 0) +
            (case init_components e (monitor_start ''app_startup'' s) of
               ((Some db, Some g), s1) \<Rightarrow>
                 (if refresh_clicked inp \<and> \<not> isl (refresh_database e) then 1 else 0) +
                 (if generate_button inp \<and> user_query inp \<noteq> [] then
                    (if isl (fst (request_body e inp
                            (fst (refresh_step e inp db (stats_step e inp s1))) g
                            (snd (refresh_step e inp db (stats_step e inp s1)))))
                     then 1 else 2)
                  else 0)
             | _ \<Rightarrow> 0)
          else 0)"
proof (intro conjI impI)
  show "\<exists>rest. trace (snd (init_components_body e s)) =
       trace s @ [MonStart ''init_components''] @
         (if cuda_available e then [ClearMemory] else []) @ CreateOrLoadDb # rest
       \<and> count_clear rest = 0"
    by (rule init_components_body_order)
next
  assume "generate_button inp \<and> user_query inp \<noteq> []"
  then show "\<exists>mid. trace (request_step e inp db g s) =
               trace s @ (if cuda_available e then [ClearMemory] else []) @ mid @
                 (if isl (fst (request_body e inp db g s)) then []
                  else (if cuda_available e then [ClearMemory] else []))
               \<and> count_clear mid = 0"
    by (rule request_step_shape)
next
  assume "refresh_clicked inp \<and> refresh_database e = Inr db'"
  then show "trace (snd (refresh_step e inp db s)) =
              trace s @ [MonStart ''refresh_database'', RefreshDatabase,
                MonEnd ''refresh_database'', StSuccess ''Database refreshed successfully!''] @
                (if cuda_available e then [ClearMemory] else [])"
    by (simp add: refresh_step_def monitor_defs)
next
  show "count_clear (trace (main e inp s)) =
       count_clear (trace s) +
         (if cuda_available e then
            (if fresh init_components_ttl (clock s) (resource_cache s) = None then 1 else 0) +
            (case init_components e (monitor_start ''app_startup'' s) of
               ((Some db, Some g), s1) \<Rightarrow>
                 (if refresh_clicked inp \<and> \<not> isl (refresh_database e) then 1 else 0) +
                 (if generate_button inp \<and> user_query inp \<noteq> [] then
                    (if isl (fst (request_body e inp
                            (fst (refresh_step e inp db (stats_step e inp s1))) g
                            (snd (refresh_step e inp db (stats_step e inp s1)))))
                     then 1 else 2)
                  else 0)
             | _ \<Rightarrow> 0)
          else 0)"
    by (rule main_clears)
qed

theorem clear_memory_points_witness:
  "generate_button demo_inputs \<and> user_query demo_inputs \<noteq> []
   \<and> refresh_clicked demo_inputs \<and> refresh_database demo_env = Inr 2
   \<and> trace (snd (refresh_step demo_env demo_inputs 1 start_state)) =
       [MonStart ''refresh_database'', RefreshDatabase, MonEnd ''refresh_database'',
        StSuccess ''Database refreshed successfully!'', ClearMemory]
   \<and> count_clear (trace (request_step demo_env demo_inputs 2 7 start_state)) = 2
   \<and> count_clear (trace (main demo_env demo_inputs start_state)) = 4"
proof -
  have h: "generate_button demo_inputs \<and> user_query demo_inputs \<noteq> []
      \<and> refresh_clicked demo_inputs \<and> refresh_database demo_env = Inr 2
      \<and> cuda_available demo_env"
    by (simp add: demo_inputs_def demo_env_def)
  have s: "trace start_state = [] \<and> clock start_state = 0 \<and> resource_cache start_state = None"
    by (simp add: start_state_def)
  have f: "fresh init_components_ttl 0 None = (None :: (db_handle option \<times> gen_handle option) option)"
    by (simp add: fresh_def)
  note t = clear_memory_points [where e=demo_env and s=start_state and inp=demo_inputs
      and db=2 and g=7 and db'=2]
  note u = clear_memory_points [where e=demo_env and s=start_state and inp=demo_inputs
      and db=1 and g=7 and db'=2]
  from u h s have "trace (snd (refresh_step demo_env demo_inputs 1 start_state)) =
       [MonStart ''refresh_database'', RefreshDatabase, MonEnd ''refresh_database'',
        StSuccess ''Database refreshed successfully!'', ClearMemory]"
    by simp
  moreover from t h s demo_request_ok [of demo_inputs 2 7 start_state]
  have "count_clear (trace (request_step demo_env demo_inputs 2 7 start_state)) = 2"
    by (auto simp add: count_clear_append)
  moreover from t h s f demo_init demo_request_ok
  have "count_clear (trace (main demo_env demo_inputs start_state)) = 4"
    by (simp add: split_beta)
  ultimately show ?thesis
    using h by simp
qed

section \<open>The accelerator diagnostic\<close>

lemma core_emit: "core s = core s' \<Longrightarrow> core (emit ev s) = core (emit ev s')"
  by (simp add: core_def emit_def)

lemma core_clear: "core s = core s' \<Longrightarrow> core (clear_if_cuda (e\<lparr>gpu_query := x\<rparr>) s) = core (clear_if_cuda e s')"
  by (simp add: core_def monitor_defs)

lemma core_stats:
  "core (stats_step e inp s) = core s"
  by (simp add: stats_step_def get_system_stats_def core_def emit_def Let_def
       split: sum.splits prod.splits)

lemma core_search:
  "core s = core s' \<Longrightarrow>
   fst (get_similar_docs (e\<lparr>gpu_query := x\<rparr>) db q k s) = fst (get_similar_docs e db q k s')
   \<and> core (snd (get_similar_docs (e\<lparr>gpu_query := x\<rparr>) db q k s))
       = core (snd (get_similar_docs e db q k s'))"
  by (simp add: get_similar_docs_def get_similar_docs_body_def core_def monitor_defs Let_def
       split: sum.splits option.splits)

lemma core_generate:
  "core s = core s' \<Longrightarrow>
   fst (generate_code_cached (e\<lparr>gpu_query := x\<rparr>) g p n s) = fst (generate_code_cached e g p n s')
   \<and> core (snd (generate_code_cached (e\<lparr>gpu_query := x\<rparr>) g p n s))
       = core (snd (generate_code_cached e g p n s'))"
  by (simp add: generate_code_cached_def generate_code_cached_body_def core_def monitor_defs Let_def
       split: sum.splits option.splits)

lemma core_references:
  "core s = core s' \<Longrightarrow> core (show_references i ds s) = core (show_references i ds s')"
proof (induction i ds s arbitrary: s' rule: show_references.induct)
  case (1 i s)
  then show ?case by simp
next
  case (2 i d ds s)
  from "2.prems" have "core (emit (StReference i d) s) = core (emit (StReference i d) s')"
    by (rule core_emit)
  then show ?case
    using "2.IH" by simp
qed

lemma core_refresh:
  "core s = core s' \<Longrightarrow>
   fst (refresh_step (e\<lparr>gpu_query := x\<rparr>) inp db s) = fst (refresh_step e inp db s')
   \<and> core (snd (refresh_step (e\<lparr>gpu_query := x\<rparr>) inp db s)) = core (snd (refresh_step e inp db s'))"
  by (simp add: refresh_step_def core_def monitor_defs Let_def split: sum.splits)

lemma core_request_body:
  assumes k: "core s = core s'"
  shows "fst (request_body (e\<lparr>gpu_query := x\<rparr>) inp db g s) = fst (request_body e inp db g s')
         \<and> core (snd (request_body (e\<lparr>gpu_query := x\<rparr>) inp db g s))
             = core (snd (request_body e inp db g s'))"
proof -
  let ?e = "e\<lparr>gpu_query := x\<rparr>"
  have k1: "core (clear_if_cuda ?e s) = core (clear_if_cuda e s')"
    using k by (rule core_clear)
  obtain r2 s2 where a: "get_similar_docs ?e db (user_query inp) 3 (clear_if_cuda ?e s) = (r2, s2)"
    by (cases "get_similar_docs ?e db (user_query inp) 3 (clear_if_cuda ?e s)")
  obtain r2' s2' where a': "get_similar_docs e db (user_query inp) 3 (clear_if_cuda e s') = (r2', s2')"
    by (cases "get_similar_docs e db (user_query inp) 3 (clear_if_cuda e s')")
  from core_search [where e=e and x=x and db=db and q="user_query inp" and k=3, OF k1] a a'
  have r2: "r2' = r2" and k2: "core s2 = core s2'"
    by simp_all
  show ?thesis
  proof (cases r2)
    case (Inl msg)
    with a a' r2 k2 show ?thesis by (simp add: request_body_def)
  next
    case (Inr docs)
    let ?prompt = "make_prompt (language inp) (user_query inp) (join newline docs)"
    obtain r3 s3 where b: "generate_code_cached ?e g ?prompt (max_length inp) s2 = (r3, s3)"
      by (cases "generate_code_cached ?e g ?prompt (max_length inp) s2")
    obtain r3' s3' where b': "generate_code_cached e g ?prompt (max_length inp) s2' = (r3', s3')"
      by (cases "generate_code_cached e g ?prompt (max_length inp) s2'")
    from core_generate [where e=e and x=x and g=g and p="?prompt" and n="max_length inp", OF k2] b b'
    have r3: "r3' = r3" and k3: "core s3 = core s3'"
      by simp_all
    show ?thesis
    proof (cases r3)
      case (Inl msg)
      with a a' r2 Inr b b' r3 k3 show ?thesis by (simp add: request_body_def)
    next
      case code: (Inr generated_code)
      let ?s4 = "emit (StCode generated_code) s3"
      let ?s4' = "emit (StCode generated_code) s3'"
      have k4: "core ?s4 = core ?s4'"
        using k3 by (rule core_emit)
      let ?explain = "''Explain this '' @ language inp @ '' code:'' @ newline @ generated_code"
      show ?thesis
      proof (cases "include_explanation inp")
        case False
        let ?s6 = "if show_context inp then show_references 1 docs ?s4 else ?s4"
        let ?s6' = "if show_context inp then show_references 1 docs ?s4' else ?s4'"
        have "core ?s6 = core ?s6'"
          using k4 core_references [OF k4] by simp
        then have "core (clear_if_cuda ?e ?s6) = core (clear_if_cuda e ?s6')"
          by (rule core_clear)
        with a a' r2 Inr b b' r3 code False show ?thesis
          by (simp add: request_body_def Let_def)
      next
        case True
        obtain r5 s5 where c: "generate_code_cached ?e g ?explain 300 ?s4 = (r5, s5)"
          by (cases "generate_code_cached ?e g ?explain 300 ?s4")
        obtain r5' s5' where c': "generate_code_cached e g ?explain 300 ?s4' = (r5', s5')"
          by (cases "generate_code_cached e g ?explain 300 ?s4'")
        from core_generate [where e=e and x=x and g=g and p="?explain" and n=300, OF k4] c c'
        have r5: "r5' = r5" and k5: "core s5 = core s5'"
          by simp_all
        show ?thesis
        proof (cases r5)
          case (Inl msg)
          with a a' r2 Inr b b' r3 code True c c' r5 k5 show ?thesis
            by (simp add: request_body_def Let_def)
        next
          case expl: (Inr explanation)
          let ?t5 = "emit (StWrite explanation) s5"
          let ?t5' = "emit (StWrite explanation) s5'"
          have k5': "core ?t5 = core ?t5'"
            using k5 by (rule core_emit)
          let ?s6 = "if show_context inp then show_references 1 docs ?t5 else ?t5"
          let ?s6' = "if show_context inp then show_references 1 docs ?t5' else ?t5'"
          have "core ?s6 = core ?s6'"
            using k5' core_references [OF k5'] by simp
          then have "core (clear_if_cuda ?e ?s6) = core (clear_if_cuda e ?s6')"
            by (rule core_clear)
          with a a' r2 Inr b b' r3 code True c c' r5 expl show ?thesis
            by (simp add: request_body_def Let_def)
        qed
      qed
    qed
  qed
qed

lemma core_request_step:
  assumes k: "core s = core s'"
  shows "core (request_step (e\<lparr>gpu_query := x\<rparr>) inp db g s) = core (request_step e inp db g s')"
proof -
  obtain r s1 where a: "request_body (e\<lparr>gpu_query := x\<rparr>) inp db g s = (r, s1)"
    by (cases "request_body (e\<lparr>gpu_query := x\<rparr>) inp db g s")
  obtain r' s1' where a': "request_body e inp db g s' = (r', s1')"
    by (cases "request_body e inp db g s'")
  from core_request_body [where e=e and x=x and inp=inp and db=db and g=g, OF k] a a'
  have r: "r' = r" and k1: "core s1 = core s1'"
    by simp_all
  show ?thesis
  proof (cases "generate_button inp \<and> user_query inp \<noteq> []")
    case False
    then show ?thesis using k by (auto simp add: request_step_def)
  next
    case True
    show ?thesis
    proof (cases r)
      case (Inl msg)
      have "core (emit (StError (''An error occurred: '' @ msg))
                (emit (LogError (''Error during code generation: '' @ msg)) s1))
          = core (emit (StError (''An error occurred: '' @ msg))
                (emit (LogError (''Error during code generation: '' @ msg)) s1'))"
        using k1 by (intro core_emit)
      with True a a' r Inl show ?thesis by (simp add: request_step_def)
    next
      case (Inr u)
      with True a a' r k1 show ?thesis by (simp add: request_step_def)
    qed
  qed
qed

lemma core_init:
  "fst (init_components (e\<lparr>gpu_query := x\<rparr>) s) = fst (init_components e s)
   \<and> snd (init_components (e\<lparr>gpu_query := x\<rparr>) s) = snd (init_components e s)"
  by (simp add: init_components_def init_components_body_def init_failed_def monitor_defs Let_def
        split: option.splits sum.splits)

lemma core_main:
  "core (main (e\<lparr>gpu_query := x\<rparr>) inp s) = core (main e inp s)"
proof -
  let ?e = "e\<lparr>gpu_query := x\<rparr>"
  let ?s0 = "monitor_start ''app_startup'' s"
  obtain d g s1 where i: "init_components e ?s0 = ((d, g), s1)"
    by (metis surj_pair)
  then have i': "init_components ?e ?s0 = ((d, g), s1)"
    using core_init [where e=e and x=x and s="?s0"] by (simp add: prod_eq_iff)
  show ?thesis
  proof (cases "d = None \<or> g = None")
    case True
    then show ?thesis
      using i i' by (auto simp add: main_def split: option.splits)
  next
    case False
    then obtain db gen where dg: "d = Some db" "g = Some gen" by auto
    have k2: "core (stats_step ?e inp s1) = core (stats_step e inp s1)"
      by (simp add: core_stats)
    note k3 = core_refresh [where e=e and x=x and inp=inp and db=db, OF k2]
    have k4: "core (request_step ?e inp (fst (refresh_step ?e inp db (stats_step ?e inp s1))) gen
                 (snd (refresh_step ?e inp db (stats_step ?e inp s1))))
        = core (request_step e inp (fst (refresh_step e inp db (stats_step e inp s1))) gen
                 (snd (refresh_step e inp db (stats_step e inp s1))))"
      using k3 core_request_step by simp
    have "core (monitor_end ''app_startup'' (request_step ?e inp (fst (refresh_step ?e inp db (stats_step ?e inp s1))) gen
                 (snd (refresh_step ?e inp db (stats_step ?e inp s1)))))
        = core (monitor_end ''app_startup'' (request_step e inp (fst (refresh_step e inp db (stats_step e inp s1))) gen
                 (snd (refresh_step e inp db (stats_step e inp s1)))))"
      unfolding monitor_end_def using k4 by (rule core_emit)
    then show ?thesis
      using i i' dg by (simp add: main_def Let_def split_beta)
  qed
qed

text \<open>
  Claim C7 says that a failing accelerator query is reported only in the log. The run
  below refutes it: with the statistics box ticked and a query that raises, the
  dictionary returned by \<open>get_system_stats\<close> carries the item \<^verbatim>\<open>"GPU Error"\<close> with the
  exception's text, and the sidebar shows it to the user with the other items.
\<close>

theorem gpu_error_shown_counterexample:
  "cuda_available broken_env \<and> gpu_query broken_env = Inl ''no driver''
   \<and> show_stats demo_inputs
   \<and> fst (get_system_stats broken_env start_state) =
       [(''GPU Error'', ''no driver''), (''CPU Usage'', ''5.0%''), (''RAM Usage'', ''6.0%'')]
   \<and> trace (stats_step broken_env demo_inputs start_state) =
       [GpuQuery, LogError ''Error getting GPU stats: no driver'',
        StText (''GPU Error: no driver'' @ newline @ ''CPU Usage: 5.0%'' @ newline @
                ''RAM Usage: 6.0%'')]"
  by (simp add: stats_step_def get_system_stats_def broken_env_def demo_inputs_def
        start_state_def emit_def newline_def)

text \<open>
  Claim C7, amended. When the accelerator query raises, \<open>get_system_stats\<close> returns
  normally a partial result: the item \<^verbatim>\<open>"GPU Error"\<close> with the exception's text, then
  the CPU and RAM items; it writes one error line to the log. The failure never aborts
  the run: whatever the query answers, a value or an exception, a run of \<open>main\<close> ends
  with the same clock, the same three caches and the same events apart from those of
  the statistics block and the log.
\<close>

theorem gpu_query_failure_is_contained:
  "(cuda_available e \<and> gpu_query e = Inl msg
      \<longrightarrow> get_system_stats e s =
            ([(''GPU Error'', msg), (''CPU Usage'', cpu_percent e @ ''%''),
              (''RAM Usage'', ram_percent e @ ''%'')],
             s\<lparr>trace := trace s @ [GpuQuery, LogError (''Error getting GPU stats: '' @ msg)]\<rparr>))
   \<and> core (main (e\<lparr>gpu_query := x\<rparr>) inp s) = core (main e inp s)"
proof (intro conjI impI)
  assume "cuda_available e \<and> gpu_query e = Inl msg"
  then show "get_system_stats e s =
            ([(''GPU Error'', msg), (''CPU Usage'', cpu_percent e @ ''%''),
              (''RAM Usage'', ram_percent e @ ''%'')],
             s\<lparr>trace := trace s @ [GpuQuery, LogError (''Error getting GPU stats: '' @ msg)]\<rparr>)"
    by (simp add: get_system_stats_def emit_def)
next
  show "core (main (e\<lparr>gpu_query := x\<rparr>) inp s) = core (main e inp s)"
    by (rule core_main)
qed

theorem gpu_query_failure_is_contained_witness:
  "cuda_available broken_env \<and> gpu_query broken_env = Inl ''no driver''
   \<and> get_system_stats broken_env start_state =
       ([(''GPU Error'', ''no driver''), (''CPU Usage'', ''5.0%''), (''RAM Usage'', ''6.0%'')],
        start_state\<lparr>trace := [GpuQuery, LogError ''Error getting GPU stats: no driver'']\<rparr>)
   \<and> core (main (demo_env\<lparr>gpu_query := Inl ''no driver''\<rparr>) demo_inputs start_state)
       = core (main demo_env demo_inputs start_state)"
proof -
  have h: "cuda_available broken_env \<and> gpu_query broken_env = Inl ''no driver''
      \<and> cpu_percent broken_env = ''5.0'' \<and> ram_percent broken_env = ''6.0''"
    by (simp add: broken_env_def)
  have t: "trace start_state = []"
    by (simp add: start_state_def)
  show ?thesis
    using gpu_query_failure_is_contained [where e=broken_env and msg="''no driver''"
            and s=start_state and x="Inl ''no driver''" and inp=demo_inputs]
      gpu_query_failure_is_contained [where e=demo_env and msg="''no driver''"
            and s=start_state and x="Inl ''no driver''" and inp=demo_inputs]
      h t
    by simp
qed

section \<open>A failing request\<close>

lemma demo_prompt_words: "length (py_split demo_prompt) = 19"
  by (simp add: demo_prompt_def make_prompt_def newline_def py_split_def py_isspace_def)

lemma demo_explain_words: "length (py_split demo_explain) = 7"
  by (simp add: demo_explain_def newline_def py_split_def py_isspace_def)

lemma demo_search:
  "get_similar_docs e 1 ''sort a list'' 3 (clear_if_cuda demo_env start_state)
     = (if similarity_search e 1 ''sort a list'' 3 = Inr [''doc'']
        then (Inr [''doc''], searched_state)
        else get_similar_docs e 1 ''sort a list'' 3 (clear_if_cuda demo_env start_state))"
  by (simp add: get_similar_docs_def get_similar_docs_body_def fresh_def monitor_defs
        start_state_def demo_env_def searched_state_def)

lemma demo_generation:
  "generate_code_cached no_explain_env 7 demo_prompt 500 searched_state
     = (Inr ''x = 1'', generated_state)"
proof -
  have "take 7 demo_prompt \<noteq> ''Explain''"
    by (simp add: demo_prompt_def make_prompt_def newline_def)
  then show ?thesis
    by (simp add: generate_code_cached_def generate_code_cached_body_def fresh_def monitor_defs
          demo_prompt_words no_explain_env_def demo_env_def searched_state_def
          generated_state_def start_state_def)
qed

text \<open>
  Claim C6. An exception in the retrieval, the generation or the explanation of a request
  leaves the \<^verbatim>\<open>try\<close> block at once: the handler logs it and shows it with
  \<^verbatim>\<open>st.error\<close>, and the steps after the failing one are not run. The failing call stores
  nothing. When the retrieval fails the state is the one before the request, with only
  events added; when the generation fails it is the state the retrieval left; when the
  explanation fails it is the state the generation left. The component cache and the
  clock are never changed by a request.
\<close>

theorem request_failure_isolation:
  "(generate_button inp \<and> user_query inp \<noteq> [] \<and> request_body e inp db g s = (Inl msg, s')
      \<longrightarrow> request_step e inp db g s =
            emit (StError (''An error occurred: '' @ msg))
              (emit (LogError (''Error during code generation: '' @ msg)) s')
          \<and> resource_cache (request_step e inp db g s) = resource_cache s
          \<and> clock (request_step e inp db g s) = clock s)
   \<and> (generate_button inp \<and> user_query inp \<noteq> []
       \<and> fresh get_similar_docs_ttl (clock s) (docs_cache s (db, user_query inp, 3)) = None
       \<and> similarity_search e db (user_query inp) 3 = Inl msg
      \<longrightarrow> request_step e inp db g s =
            s\<lparr>trace := trace s @ (if cuda_available e then [ClearMemory] else []) @
               [MonStart ''similarity_search'', SimilaritySearch db (user_query inp) 3,
                LogError (''Error during code generation: '' @ msg),
                StError (''An error occurred: '' @ msg)]\<rparr>)
   \<and> (generate_button inp \<and> user_query inp \<noteq> []
       \<and> get_similar_docs e db (user_query inp) 3 (clear_if_cuda e s) = (Inr docs, sd)
       \<and> prompt = make_prompt (language inp) (user_query inp) (join newline docs)
       \<and> fresh generate_code_cached_ttl (clock sd) (code_cache sd (g, prompt, max_length inp)) = None
       \<and> generate_code e g prompt (max 500 (int (length (py_split prompt)) + 200)) = Inl msg
      \<longrightarrow> request_step e inp db g s =
            sd\<lparr>trace := trace sd @
               [MonStart ''code_generation'',
                GenerateCode g prompt (max 500 (int (length (py_split prompt)) + 200)),
                LogError (''Error during code generation: '' @ msg),
                StError (''An error occurred: '' @ msg)]\<rparr>)
   \<and> (generate_button inp \<and> user_query inp \<noteq> []
       \<and> get_similar_docs e db (user_query inp) 3 (clear_if_cuda e s) = (Inr docs, sd)
       \<and> prompt = make_prompt (language inp) (user_query inp) (join newline docs)
       \<and> generate_code_cached e g prompt (max_length inp) sd = (Inr code, sc)
       \<and> include_explanation inp
       \<and> explain = ''Explain this '' @ language inp @ '' code:'' @ newline @ code
       \<and> fresh generate_code_cached_ttl (clock sc) (code_cache sc (g, explain, 300)) = None
       \<and> generate_code e g explain (max 500 (int (length (py_split explain)) + 200)) = Inl msg
      \<longrightarrow> request_step e inp db g s =
            sc\<lparr>trace := trace sc @
               [StCode code, MonStart ''code_generation'',
                GenerateCode g explain (max 500 (int (length (py_split explain)) + 200)),
                LogError (''Error during code generation: '' @ msg),
                StError (''An error occurred: '' @ msg)]\<rparr>)"
proof (intro conjI impI)
  assume a: "generate_button inp \<and> user_query inp \<noteq> [] \<and> request_body e inp db g s = (Inl msg, s')"
  then show r: "request_step e inp db g s =
            emit (StError (''An error occurred: '' @ msg))
              (emit (LogError (''Error during code generation: '' @ msg)) s')"
    by (simp add: request_step_def)
  from a show "resource_cache (request_step e inp db g s) = resource_cache s"
    by (simp add: request_step_resource)
  from a request_body_resource [of e inp db g s]
  show "clock (request_step e inp db g s) = clock s"
    by (simp add: r emit_def)
next
  assume "generate_button inp \<and> user_query inp \<noteq> []
       \<and> fresh get_similar_docs_ttl (clock s) (docs_cache s (db, user_query inp, 3)) = None
       \<and> similarity_search e db (user_query inp) 3 = Inl msg"
  then show "request_step e inp db g s =
            s\<lparr>trace := trace s @ (if cuda_available e then [ClearMemory] else []) @
               [MonStart ''similarity_search'', SimilaritySearch db (user_query inp) 3,
                LogError (''Error during code generation: '' @ msg),
                StError (''An error occurred: '' @ msg)]\<rparr>"
    by (simp add: request_step_def request_body_def get_similar_docs_def
          get_similar_docs_body_def monitor_defs)
next
  assume "generate_button inp \<and> user_query inp \<noteq> []
       \<and> get_similar_docs e db (user_query inp) 3 (clear_if_cuda e s) = (Inr docs, sd)
       \<and> prompt = make_prompt (language inp) (user_query inp) (join newline docs)
       \<and> fresh generate_code_cached_ttl (clock sd) (code_cache sd (g, prompt, max_length inp)) = None
       \<and> generate_code e g prompt (max 500 (int (length (py_split prompt)) + 200)) = Inl msg"
  then show "request_step e inp db g s =
            sd\<lparr>trace := trace sd @
               [MonStart ''code_generation'',
                GenerateCode g prompt (max 500 (int (length (py_split prompt)) + 200)),
                LogError (''Error during code generation: '' @ msg),
                StError (''An error occurred: '' @ msg)]\<rparr>"
    by (clarsimp simp add: request_step_def request_body_def generate_code_cached_def
          generate_code_cached_body_def emit_def monitor_start_def Let_def)
next
  assume "generate_button inp \<and> user_query inp \<noteq> []
       \<and> get_similar_docs e db (user_query inp) 3 (clear_if_cuda e s) = (Inr docs, sd)
       \<and> prompt = make_prompt (language inp) (user_query inp) (join newline docs)
       \<and> generate_code_cached e g prompt (max_length inp) sd = (Inr code, sc)
       \<and> include_explanation inp
       \<and> explain = ''Explain this '' @ language inp @ '' code:'' @ newline @ code
       \<and> fresh generate_code_cached_ttl (clock sc) (code_cache sc (g, explain, 300)) = None
       \<and> generate_code e g explain (max 500 (int (length (py_split explain)) + 200)) = Inl msg"
  then show "request_step e inp db g s =
            sc\<lparr>trace := trace sc @
               [StCode code, MonStart ''code_generation'',
                GenerateCode g explain (max 500 (int (length (py_split explain)) + 200)),
                LogError (''Error during code generation: '' @ msg),
                StError (''An error occurred: '' @ msg)]\<rparr>"
    by (clarsimp simp add: request_step_def request_body_def generate_code_cached_def
          generate_code_cached_body_def emit_def monitor_start_def Let_def)
qed


theorem request_failure_isolation_witness:
  "generate_button demo_inputs \<and> user_query demo_inputs \<noteq> []
   \<and> similarity_search broken_env 1 (user_query demo_inputs) 3 = Inl ''store down''
   \<and> request_body broken_env demo_inputs 1 7 start_state =
       (Inl ''store down'',
        start_state\<lparr>trace := [ClearMemory, MonStart ''similarity_search'',
          SimilaritySearch 1 ''sort a list'' 3]\<rparr>)
   \<and> resource_cache (request_step broken_env demo_inputs 1 7 start_state) = None
   \<and> request_step broken_env demo_inputs 1 7 start_state =
       start_state\<lparr>trace := [ClearMemory, MonStart ''similarity_search'',
          SimilaritySearch 1 ''sort a list'' 3,
          LogError ''Error during code generation: store down'',
          StError ''An error occurred: store down'']\<rparr>
   \<and> get_similar_docs no_model_env 1 (user_query demo_inputs) 3
         (clear_if_cuda no_model_env start_state) = (Inr [''doc''], searched_state)
   \<and> generate_code no_model_env 7 demo_prompt 500 = Inl ''out of memory''
   \<and> request_step no_model_env demo_inputs 1 7 start_state =
       searched_state\<lparr>trace := trace searched_state @
         [MonStart ''code_generation'', GenerateCode 7 demo_prompt 500,
          LogError ''Error during code generation: out of memory'',
          StError ''An error occurred: out of memory'']\<rparr>
   \<and> generate_code_cached no_explain_env 7 demo_prompt (max_length demo_inputs) searched_state
       = (Inr ''x = 1'', generated_state)
   \<and> include_explanation demo_inputs
   \<and> generate_code no_explain_env 7 demo_explain 500 = Inl ''out of memory''
   \<and> request_step no_explain_env demo_inputs 1 7 start_state =
       generated_state\<lparr>trace := trace generated_state @
         [StCode ''x = 1'', MonStart ''code_generation'', GenerateCode 7 demo_explain 500,
          LogError ''Error during code generation: out of memory'',
          StError ''An error occurred: out of memory'']\<rparr>"
proof -
  have inp: "generate_button demo_inputs \<and> user_query demo_inputs = ''sort a list''
      \<and> language demo_inputs = ''Python'' \<and> max_length demo_inputs = 500
      \<and> include_explanation demo_inputs"
    by (simp add: demo_inputs_def)
  have envs: "cuda_available broken_env \<and> cuda_available no_model_env
      \<and> cuda_available no_explain_env
      \<and> clear_if_cuda no_model_env start_state = clear_if_cuda demo_env start_state
      \<and> clear_if_cuda no_explain_env start_state = clear_if_cuda demo_env start_state
      \<and> similarity_search broken_env 1 ''sort a list'' 3 = Inl ''store down''
      \<and> similarity_search no_model_env 1 ''sort a list'' 3 = Inr [''doc'']
      \<and> similarity_search no_explain_env 1 ''sort a list'' 3 = Inr [''doc'']
      \<and> generate_code no_model_env 7 demo_prompt 500 = Inl ''out of memory''
      \<and> generate_code no_explain_env 7 demo_explain 500 = Inl ''out of memory''"
    by (simp add: broken_env_def no_model_env_def no_explain_env_def demo_env_def
          clear_if_cuda_def demo_explain_def)
  have prompts: "demo_prompt = make_prompt ''Python'' ''sort a list'' (join newline [''doc''])
      \<and> demo_explain = ''Explain this '' @ ''Python'' @ '' code:'' @ newline @ ''x = 1''"
    by (simp add: demo_prompt_def demo_explain_def)
  have misses: "fresh get_similar_docs_ttl (clock start_state)
        (docs_cache start_state (1, ''sort a list'', 3)) = None
      \<and> trace start_state = []
      \<and> fresh generate_code_cached_ttl (clock searched_state)
          (code_cache searched_state (7, demo_prompt, 500)) = None
      \<and> fresh generate_code_cached_ttl (clock generated_state)
          (code_cache generated_state (7, demo_explain, 300)) = None"
    by (simp add: fresh_def start_state_def searched_state_def generated_state_def)
  note words = demo_prompt_words demo_explain_words
  have b: "request_step broken_env demo_inputs 1 7 start_state =
       start_state\<lparr>trace := [ClearMemory, MonStart ''similarity_search'',
          SimilaritySearch 1 ''sort a list'' 3,
          LogError ''Error during code generation: store down'',
          StError ''An error occurred: store down'']\<rparr>"
    using request_failure_isolation [where inp=demo_inputs and e=broken_env and db=1 and g=7
            and s=start_state and msg="''store down''"]
      inp envs misses
    by simp
  have s: "get_similar_docs no_model_env 1 ''sort a list'' 3
         (clear_if_cuda demo_env start_state) = (Inr [''doc''], searched_state)
      \<and> get_similar_docs no_explain_env 1 ''sort a list'' 3
         (clear_if_cuda demo_env start_state) = (Inr [''doc''], searched_state)"
    using demo_search [of no_model_env] demo_search [of no_explain_env] envs by simp
  have c: "request_step no_model_env demo_inputs 1 7 start_state =
       searched_state\<lparr>trace := trace searched_state @
         [MonStart ''code_generation'', GenerateCode 7 demo_prompt 500,
          LogError ''Error during code generation: out of memory'',
          StError ''An error occurred: out of memory'']\<rparr>"
    using request_failure_isolation [where inp=demo_inputs and e=no_model_env and db=1 and g=7
            and s=start_state and msg="''out of memory''" and docs="[''doc'']"
            and sd=searched_state and prompt=demo_prompt]
      inp envs misses s prompts words
    by simp
  have d: "request_step no_explain_env demo_inputs 1 7 start_state =
       generated_state\<lparr>trace := trace generated_state @
         [StCode ''x = 1'', MonStart ''code_generation'', GenerateCode 7 demo_explain 500,
          LogError ''Error during code generation: out of memory'',
          StError ''An error occurred: out of memory'']\<rparr>"
    using request_failure_isolation [where inp=demo_inputs and e=no_explain_env and db=1 and g=7
            and s=start_state and msg="''out of memory''" and docs="[''doc'']"
            and sd=searched_state and prompt=demo_prompt and code="''x = 1''"
            and sc=generated_state and explain=demo_explain]
      inp envs misses s prompts words demo_generation
    by simp
  have a: "request_body broken_env demo_inputs 1 7 start_state =
       (Inl ''store down'',
        start_state\<lparr>trace := [ClearMemory, MonStart ''similarity_search'',
          SimilaritySearch 1 ''sort a list'' 3]\<rparr>)"
    using inp envs misses
    by (simp add: request_body_def get_similar_docs_def get_similar_docs_body_def monitor_defs)
  have r: "resource_cache (request_step broken_env demo_inputs 1 7 start_state) = None"
  proof -
    have "resource_cache start_state = None"
      by (simp add: start_state_def)
    with request_failure_isolation [where inp=demo_inputs and e=broken_env and db=1 and g=7
            and s=start_state and msg="''store down''"
            and s'="start_state\<lparr>trace := [ClearMemory, MonStart ''similarity_search'',
                      SimilaritySearch 1 ''sort a list'' 3]\<rparr>", THEN conjunct1]
      inp a
    show ?thesis by auto
  qed
  show ?thesis
    using a r b c d inp envs s demo_generation by simp
qed

section \<open>The configuration constants\<close>

lemma init_components_expired:
  assumes "resource_cache s = Some (created, v)" and "created + 3600 \<le> clock s"
  shows "fst (init_components e s) = fst (init_components_body e s)
     \<and> resource_cache (snd (init_components e s)) = Some (clock s, fst (init_components_body e s))
     \<and> (\<exists>rest. trace (snd (init_components e s)) =
           trace s @ [MonStart ''init_components''] @
             (if cuda_available e then [ClearMemory] else []) @ CreateOrLoadDb # rest)"
proof -
  have miss: "fresh init_components_ttl (clock s) (resource_cache s) = None"
    using assms by (simp add: fresh_def init_components_ttl_def)
  have c: "clock (snd (init_components_body e s)) = clock s"
    by (simp add: init_components_body_def init_failed_def monitor_defs Let_def split: sum.splits)
  have i: "init_components e s =
      (fst (init_components_body e s),
       (snd (init_components_body e s))\<lparr>resource_cache := Some (clock s, fst (init_components_body e s))\<rparr>)"
    using miss c by (simp add: init_components_def split_beta)
  obtain rest where "trace (snd (init_components_body e s)) =
      trace s @ [MonStart ''init_components''] @
        (if cuda_available e then [ClearMemory] else []) @ CreateOrLoadDb # rest"
    using init_components_body_order [of e s] by blast
  then show ?thesis
    by (simp add: i)
qed

lemma get_similar_docs_expired:
  "docs_cache s (db, q, k) = Some (created, docs) \<Longrightarrow> created + 300 \<le> clock s \<Longrightarrow>
   store_calls (trace (snd (get_similar_docs e db q k s))) = store_calls (trace s) @ [(db, q, k)]"
  by (simp add: get_similar_docs_def get_similar_docs_body_def fresh_def get_similar_docs_ttl_def
        monitor_defs store_calls_append Let_def split: sum.splits)

lemma generate_code_cached_miss_call:
  "fresh generate_code_cached_ttl (clock s) (code_cache s (g, p, n)) = None \<Longrightarrow>
   model_calls (trace (snd (generate_code_cached e g p n s))) =
     model_calls (trace s) @ [(g, p, max 500 (int (length (py_split p)) + 200))]"
  using body_model_calls [of e g p n s]
  by (auto simp add: generate_code_cached_def split: sum.splits prod.splits)

text \<open>
  Claim C9. The three caching functions apply the configured durations. With an entry
  in the component cache, \<open>init_components\<close> returns it unchanged while the clock is
  below the entry's creation time plus 3600 seconds, and from that second on it runs its
  body again, attempts the construction and stores the new result with the current time.
  With an entry for the key, \<open>get_similar_docs\<close> and \<open>generate_code_cached\<close> return it
  unchanged while the clock is below its creation time plus 300 seconds, and from that
  second on they call the store, respectively the model, again. Every call of the model,
  after an expiry or with no entry, is made with the floor 500 and the margin 200 over
  the prompt's word count.
\<close>

theorem configuration_constants:
  "init_components_ttl = 3600
   \<and> get_similar_docs_ttl = 300
   \<and> generate_code_cached_ttl = 300
   \<and> (resource_cache s = Some (created, v) \<and> clock s < created + 3600
        \<longrightarrow> init_components e s = (v, s))
   \<and> (resource_cache s = Some (created, v) \<and> created + 3600 \<le> clock s
        \<longrightarrow> fst (init_components e s) = fst (init_components_body e s)
            \<and> resource_cache (snd (init_components e s)) =
                Some (clock s, fst (init_components_body e s))
            \<and> (\<exists>rest. trace (snd (init_components e s)) =
                  trace s @ [MonStart ''init_components''] @
                    (if cuda_available e then [ClearMemory] else []) @ CreateOrLoadDb # rest))
   \<and> (docs_cache s (db, q, k) = Some (created, docs) \<and> clock s < created + 300
        \<longrightarrow> get_similar_docs e db q k s = (Inr docs, s))
   \<and> (docs_cache s (db, q, k) = Some (created, docs) \<and> created + 300 \<le> clock s
        \<longrightarrow> store_calls (trace (snd (get_similar_docs e db q k s))) =
              store_calls (trace s) @ [(db, q, k)])
   \<and> (code_cache s (g, p, n) = Some (created, r) \<and> clock s < created + 300
        \<longrightarrow> generate_code_cached e g p n s = (Inr r, s))
   \<and> (code_cache s (g, p, n) = Some (created, r) \<and> created + 300 \<le> clock s
        \<longrightarrow> model_calls (trace (snd (generate_code_cached e g p n s))) =
              model_calls (trace s) @ [(g, p, max 500 (int (length (py_split p)) + 200))])
   \<and> (code_cache s (g, p, n) = None
        \<longrightarrow> model_calls (trace (snd (generate_code_cached e g p n s))) =
              model_calls (trace s) @ [(g, p, max 500 (int (length (py_split p)) + 200))])"
proof (intro conjI impI)
  show "init_components_ttl = 3600" by (simp add: init_components_ttl_def)
  show "get_similar_docs_ttl = 300" by (simp add: get_similar_docs_ttl_def)
  show "generate_code_cached_ttl = 300" by (simp add: generate_code_cached_ttl_def)
next
  assume "resource_cache s = Some (created, v) \<and> clock s < created + 3600"
  then show "init_components e s = (v, s)"
    by (simp add: init_components_hit)
next
  assume a: "resource_cache s = Some (created, v) \<and> created + 3600 \<le> clock s"
  note x = init_components_expired [of s created v e]
  from a x show "fst (init_components e s) = fst (init_components_body e s)" by blast
  from a x show "resource_cache (snd (init_components e s)) =
      Some (clock s, fst (init_components_body e s))" by blast
  from a x show "\<exists>rest. trace (snd (init_components e s)) =
      trace s @ [MonStart ''init_components''] @
        (if cuda_available e then [ClearMemory] else []) @ CreateOrLoadDb # rest" by blast
next
  assume "docs_cache s (db, q, k) = Some (created, docs) \<and> clock s < created + 300"
  then show "get_similar_docs e db q k s = (Inr docs, s)"
    by (simp add: get_similar_docs_hit)
next
  assume "docs_cache s (db, q, k) = Some (created, docs) \<and> created + 300 \<le> clock s"
  then show "store_calls (trace (snd (get_similar_docs e db q k s))) =
      store_calls (trace s) @ [(db, q, k)]"
    by (simp add: get_similar_docs_expired)
next
  assume "code_cache s (g, p, n) = Some (created, r) \<and> clock s < created + 300"
  then show "generate_code_cached e g p n s = (Inr r, s)"
    by (simp add: generate_code_cached_hit)
next
  assume "code_cache s (g, p, n) = Some (created, r) \<and> created + 300 \<le> clock s"
  then have "fresh generate_code_cached_ttl (clock s) (code_cache s (g, p, n)) = None"
    by (simp add: fresh_def generate_code_cached_ttl_def)
  then show "model_calls (trace (snd (generate_code_cached e g p n s))) =
      model_calls (trace s) @ [(g, p, max 500 (int (length (py_split p)) + 200))]"
    by (rule generate_code_cached_miss_call)
next
  assume "code_cache s (g, p, n) = None"
  then have "fresh generate_code_cached_ttl (clock s) (code_cache s (g, p, n)) = None"
    by (simp add: fresh_def)
  then show "model_calls (trace (snd (generate_code_cached e g p n s))) =
      model_calls (trace s) @ [(g, p, max 500 (int (length (py_split p)) + 200))]"
    by (rule generate_code_cached_miss_call)
qed

theorem configuration_constants_witness:
  "resource_cache (warm_state\<lparr>clock := 3599\<rparr>) = Some (0, (Some 1, Some 7))
   \<and> init_components broken_env (warm_state\<lparr>clock := 3599\<rparr>)
       = ((Some 1, Some 7), warm_state\<lparr>clock := 3599\<rparr>)
   \<and> resource_cache (snd (init_components demo_env (warm_state\<lparr>clock := 3600\<rparr>)))
       = Some (3600, (Some 1, Some 7))
   \<and> docs_cache docs_state (1, ''sort a list'', 3) = Some (0, [''doc''])
   \<and> get_similar_docs broken_env 1 ''sort a list'' 3 (docs_state\<lparr>clock := 299\<rparr>)
       = (Inr [''doc''], docs_state\<lparr>clock := 299\<rparr>)
   \<and> store_calls (trace (snd (get_similar_docs demo_env 1 ''sort a list'' 3
         (docs_state\<lparr>clock := 300\<rparr>))))
       = [(1, ''sort a list'', 3), (1, ''sort a list'', 3)]
   \<and> code_cache code_state (7, ''hi'', 100) = Some (0, ''x = 1'')
   \<and> generate_code_cached broken_env 7 ''hi'' 100 (code_state\<lparr>clock := 299\<rparr>)
       = (Inr ''x = 1'', code_state\<lparr>clock := 299\<rparr>)
   \<and> model_calls (trace (snd (generate_code_cached demo_env 7 ''hi'' 100
         (code_state\<lparr>clock := 300\<rparr>))))
       = [(7, ''hi'', 500), (7, ''hi'', 500)]
   \<and> code_cache start_state (7, words_prompt 301, 100) = None
   \<and> model_calls (trace (snd (generate_code_cached demo_env 7 (words_prompt 301) 100
         start_state)))
       = [(7, words_prompt 301, 501)]"
proof -
  have w: "resource_cache (warm_state\<lparr>clock := 3599\<rparr>) = Some (0, (Some 1, Some 7))
      \<and> clock (warm_state\<lparr>clock := 3599\<rparr>) < 0 + 3600
      \<and> resource_cache (warm_state\<lparr>clock := 3600\<rparr>) = Some (0, (Some 1, Some 7))
      \<and> 0 + 3600 \<le> clock (warm_state\<lparr>clock := 3600\<rparr>)
      \<and> clock (warm_state\<lparr>clock := 3600\<rparr>) = 3600"
    by (simp add: warm_state_def start_state_def)
  have b: "fst (init_components_body demo_env (warm_state\<lparr>clock := 3600\<rparr>)) = (Some 1, Some 7)"
    by (simp add: init_components_body_def demo_env_def Let_def)
  have d: "docs_cache (docs_state\<lparr>clock := 299\<rparr>) (1, ''sort a list'', 3) = Some (0, [''doc''])
      \<and> clock (docs_state\<lparr>clock := 299\<rparr>) < 0 + 300
      \<and> docs_cache (docs_state\<lparr>clock := 300\<rparr>) (1, ''sort a list'', 3) = Some (0, [''doc''])
      \<and> 0 + 300 \<le> clock (docs_state\<lparr>clock := 300\<rparr>)
      \<and> docs_cache docs_state (1, ''sort a list'', 3) = Some (0, [''doc''])
      \<and> store_calls (trace (docs_state\<lparr>clock := 300\<rparr>)) = [(1, ''sort a list'', 3)]"
    by (simp add: docs_state_def start_state_def)
  have c: "code_cache (code_state\<lparr>clock := 299\<rparr>) (7, ''hi'', 100) = Some (0, ''x = 1'')
      \<and> clock (code_state\<lparr>clock := 299\<rparr>) < 0 + 300
      \<and> code_cache (code_state\<lparr>clock := 300\<rparr>) (7, ''hi'', 100) = Some (0, ''x = 1'')
      \<and> 0 + 300 \<le> clock (code_state\<lparr>clock := 300\<rparr>)
      \<and> code_cache code_state (7, ''hi'', 100) = Some (0, ''x = 1'')
      \<and> model_calls (trace (code_state\<lparr>clock := 300\<rparr>)) = [(7, ''hi'', 500)]"
    by (simp add: code_state_def start_state_def)
  have n: "code_cache start_state (7, words_prompt 301, 100) = None
      \<and> model_calls (trace start_state) = []"
    by (simp add: start_state_def)
  have i1: "init_components broken_env (warm_state\<lparr>clock := 3599\<rparr>)
       = ((Some 1, Some 7), warm_state\<lparr>clock := 3599\<rparr>)"
    using configuration_constants [where s="warm_state\<lparr>clock := 3599\<rparr>" and e=broken_env and created=0
            and v="(Some 1, Some 7)" and db=1 and q="''sort a list''" and k=3
            and docs="[''doc'']" and g=7 and p="''hi''" and n=100 and r="''x = 1''"]
      w
    by auto
  have i2: "resource_cache (snd (init_components demo_env (warm_state\<lparr>clock := 3600\<rparr>)))
       = Some (3600, (Some 1, Some 7))"
    using configuration_constants [where s="warm_state\<lparr>clock := 3600\<rparr>" and e=demo_env and created=0
            and v="(Some 1, Some 7)" and db=1 and q="''sort a list''" and k=3
            and docs="[''doc'']" and g=7 and p="''hi''" and n=100 and r="''x = 1''"]
      w b
    by auto
  have d1: "get_similar_docs broken_env 1 ''sort a list'' 3 (docs_state\<lparr>clock := 299\<rparr>)
       = (Inr [''doc''], docs_state\<lparr>clock := 299\<rparr>)"
    using configuration_constants [where s="docs_state\<lparr>clock := 299\<rparr>" and e=broken_env and created=0
            and v="(Some 1, Some 7)" and db=1 and q="''sort a list''" and k=3
            and docs="[''doc'']" and g=7 and p="''hi''" and n=100 and r="''x = 1''"]
      d
    by auto
  have d2: "store_calls (trace (snd (get_similar_docs demo_env 1 ''sort a list'' 3
         (docs_state\<lparr>clock := 300\<rparr>))))
       = [(1, ''sort a list'', 3), (1, ''sort a list'', 3)]"
    using configuration_constants [where s="docs_state\<lparr>clock := 300\<rparr>" and e=demo_env and created=0
            and v="(Some 1, Some 7)" and db=1 and q="''sort a list''" and k=3
            and docs="[''doc'']" and g=7 and p="''hi''" and n=100 and r="''x = 1''"]
      d
    by auto
  have c1: "generate_code_cached broken_env 7 ''hi'' 100 (code_state\<lparr>clock := 299\<rparr>)
       = (Inr ''x = 1'', code_state\<lparr>clock := 299\<rparr>)"
    using configuration_constants [where s="code_state\<lparr>clock := 299\<rparr>" and e=broken_env and created=0
            and v="(Some 1, Some 7)" and db=1 and q="''sort a list''" and k=3
            and docs="[''doc'']" and g=7 and p="''hi''" and n=100 and r="''x = 1''"]
      c
    by auto
  have c2: "model_calls (trace (snd (generate_code_cached demo_env 7 ''hi'' 100
         (code_state\<lparr>clock := 300\<rparr>))))
       = [(7, ''hi'', 500), (7, ''hi'', 500)]"
    using configuration_constants [where s="code_state\<lparr>clock := 300\<rparr>" and e=demo_env and created=0
            and v="(Some 1, Some 7)" and db=1 and q="''sort a list''" and k=3
            and docs="[''doc'']" and g=7 and p="''hi''" and n=100 and r="''x = 1''"]
      c split_hi
    by auto
  have c3: "model_calls (trace (snd (generate_code_cached demo_env 7 (words_prompt 301) 100
         start_state)))
       = [(7, words_prompt 301, 501)]"
    using configuration_constants [where s="start_state" and e=demo_env and created=0
            and v="(Some 1, Some 7)" and db=1 and q="''sort a list''" and k=3
            and docs="[''doc'']" and g=7 and p="words_prompt 301" and n=100 and r="''x = 1''"]
      n py_split_words [of 301]
    by auto
  show ?thesis
    using w d c n i1 i2 d1 d2 c1 c2 c3 by simp
qed

end
